theory Spec2Isabelle
  imports Complex_Main "HOL-Library.Sublist"
begin

section \<open>Strings\<close>

text \<open>
  A Python \<open>str\<close> is modelled as a \<open>string\<close>, one \<open>char\<close> per code point, so the
  model covers text whose code points are below 256. The character classes and the
  lower-casing below are Python's on that range. Upper-casing leaves U+00B5, U+00DF and
  U+00FF as they are, since their upper-case forms are not single code points below 256;
  the source only compares upper-cased text with ASCII words, which no such form equals.
\<close>

definition uppers :: string where
  "uppers = ''ABCDEFGHIJKLMNOPQRSTUVWXYZ''"

definition lowers :: string where
  "lowers = ''abcdefghijklmnopqrstuvwxyz''"

definition digits :: string where
  "digits = ''0123456789''"

text \<open>The upper-case letters U+00C0 to U+00DE and their lower-case forms U+00E0 to U+00FE.\<close>

definition latin_uppers :: string where
  "latin_uppers =
     [CHR 0xC0, CHR 0xC1, CHR 0xC2, CHR 0xC3, CHR 0xC4, CHR 0xC5, CHR 0xC6, CHR 0xC7,
     CHR 0xC8, CHR 0xC9, CHR 0xCA, CHR 0xCB, CHR 0xCC, CHR 0xCD, CHR 0xCE, CHR 0xCF, CHR 0xD0,
     CHR 0xD1, CHR 0xD2, CHR 0xD3, CHR 0xD4, CHR 0xD5, CHR 0xD6, CHR 0xD8, CHR 0xD9, CHR 0xDA,
     CHR 0xDB, CHR 0xDC, CHR 0xDD, CHR 0xDE]"

definition latin_lowers :: string where
  "latin_lowers =
     [CHR 0xE0, CHR 0xE1, CHR 0xE2, CHR 0xE3, CHR 0xE4, CHR 0xE5, CHR 0xE6, CHR 0xE7,
     CHR 0xE8, CHR 0xE9, CHR 0xEA, CHR 0xEB, CHR 0xEC, CHR 0xED, CHR 0xEE, CHR 0xEF, CHR 0xF0,
     CHR 0xF1, CHR 0xF2, CHR 0xF3, CHR 0xF4, CHR 0xF5, CHR 0xF6, CHR 0xF8, CHR 0xF9, CHR 0xFA,
     CHR 0xFB, CHR 0xFC, CHR 0xFD, CHR 0xFE]"

text \<open>The class \<open>\d\<close>: the decimal digits.\<close>

definition is_digit :: "char \<Rightarrow> bool" where
  "is_digit c = (c \<in> set digits)"

text \<open>
  \<open>str.isalpha\<close>: the letters, among them U+00AA, U+00B5, U+00BA, U+00DF and U+00FF,
  which have no other case below 256. The bit \<open>digit7\<close> of a character is set when its
  code point is 128 or more.
\<close>

definition is_alpha :: "char \<Rightarrow> bool" where
  "is_alpha c =
     (if digit7 c
      then c \<in> set (latin_uppers @ latin_lowers @ [CHR 0xAA, CHR 0xB5, CHR 0xBA, CHR 0xDF, CHR 0xFF])
      else c \<in> set (lowers @ uppers))"

text \<open>The class \<open>[a-z0-9]\<close>.\<close>

definition is_lower_alnum :: "char \<Rightarrow> bool" where
  "is_lower_alnum c = (c \<in> set lowers \<or> c \<in> set digits)"

text \<open>
  The class \<open>\w\<close>: the letters, the digits, the underscore, and the numeric characters
  U+00B2, U+00B3, U+00B9, U+00BC, U+00BD and U+00BE.
\<close>

definition is_word :: "char \<Rightarrow> bool" where
  "is_word c =
     (is_alpha c \<or> is_digit c \<or> c = CHR ''_''
      \<or> (digit7 c \<and> c \<in> set [CHR 0xB2, CHR 0xB3, CHR 0xB9, CHR 0xBC, CHR 0xBD, CHR 0xBE]))"

text \<open>The class \<open>\s\<close>, which is also what \<open>str.strip()\<close> removes.\<close>

definition is_space :: "char \<Rightarrow> bool" where
  "is_space c = (c \<in> set [CHR 0x20, CHR 0x09, CHR 0x0A, CHR 0x0B, CHR 0x0C, CHR 0x0D,
                            CHR 0x1C, CHR 0x1D, CHR 0x1E, CHR 0x1F, CHR 0x85, CHR 0xA0])"

definition lower_char :: "char \<Rightarrow> char" where
  "lower_char c =
     (case map_of (if digit7 c then zip latin_uppers latin_lowers else zip uppers lowers) c of
        Some d \<Rightarrow> d
      | None \<Rightarrow> c)"

definition upper_char :: "char \<Rightarrow> char" where
  "upper_char c =
     (case map_of (if digit7 c then zip latin_lowers latin_uppers else zip lowers uppers) c of
        Some d \<Rightarrow> d
      | None \<Rightarrow> c)"

definition lower :: "string \<Rightarrow> string" where
  "lower s = map lower_char s"

definition upper :: "string \<Rightarrow> string" where
  "upper s = map upper_char s"

definition strip :: "string \<Rightarrow> string" where
  "strip s = rev (dropWhile is_space (rev (dropWhile is_space s)))"

text \<open>
  \<open>str.title()\<close>: a letter is upper-cased when the character before it is not a letter,
  and lower-cased otherwise. The source applies it to the ASCII words that the size pattern
  matches.
\<close>

fun title_from :: "bool \<Rightarrow> string \<Rightarrow> string" where
  "title_from prev [] = []"
| "title_from prev (c # cs) =
     (if is_alpha c then (if prev then lower_char c else upper_char c) # title_from True cs
      else c # title_from False cs)"

definition title :: "string \<Rightarrow> string" where
  "title s = title_from False s"

text \<open>\<open>contains sub s\<close> is Python's \<open>sub in s\<close>.\<close>

fun contains :: "string \<Rightarrow> string \<Rightarrow> bool" where
  "contains sub [] = (sub = [])"
| "contains sub (c # cs) = (prefix sub (c # cs) \<or> contains sub cs)"

text \<open>\<open>x or ""\<close> and the truth value of an optional string.\<close>

definition or_empty :: "string option \<Rightarrow> string" where
  "or_empty s = (case s of None \<Rightarrow> [] | Some t \<Rightarrow> t)"

definition truthy :: "string option \<Rightarrow> bool" where
  "truthy s = (case s of None \<Rightarrow> False | Some t \<Rightarrow> t \<noteq> [])"

section \<open>Regular expressions\<close>

text \<open>
  The patterns of the source use literals, alternation, one capture group, \<open>\b\<close> and
  greedy bounded repetition of a character class. \<open>rx_run\<close> lists the ways a pattern
  matches at a position in the order a backtracking matcher tries them, so the head of the
  list is the match that \<open>re\<close> reports. A position is the character before it (for
  \<open>\b\<close>), the remaining input and the text of group 1.
\<close>

datatype rx =
    Lit string
  | Rep nat "nat option" "char \<Rightarrow> bool"
  | WordB
  | Seq rx rx
  | Alt rx rx
  | Grp rx

type_synonym mpos = "char option \<times> string \<times> string option"

definition at_word :: "char option \<Rightarrow> bool" where
  "at_word p = (case p of None \<Rightarrow> False | Some c \<Rightarrow> is_word c)"

definition next_char :: "string \<Rightarrow> char option" where
  "next_char s = (case s of [] \<Rightarrow> None | c # _ \<Rightarrow> Some c)"

fun rx_run :: "rx \<Rightarrow> mpos \<Rightarrow> mpos list" where
  "rx_run (Lit w) (p, s, g) =
     (if prefix w s then [(if w = [] then p else Some (last w), drop (length w) s, g)] else [])"
| "rx_run (Rep lo hi cls) (p, s, g) =
     (let avail = length (takeWhile cls s);
          top = (case hi of None \<Rightarrow> avail | Some h \<Rightarrow> min h avail)
      in map (\<lambda>k. (if k = 0 then p else Some (s ! (k - 1)), drop k s, g)) (rev [lo ..< Suc top]))"
| "rx_run WordB (p, s, g) = (if at_word p \<noteq> at_word (next_char s) then [(p, s, g)] else [])"
| "rx_run (Seq a b) m = concat (map (rx_run b) (rx_run a m))"
| "rx_run (Alt a b) m = rx_run a m @ rx_run b m"
| "rx_run (Grp a) (p, s, g) =
     map (\<lambda>(p', s', g'). (p', s', Some (take (length s - length s') s))) (rx_run a (p, s, g))"

text \<open>\<open>re.search\<close>: the leftmost position with a match; the result is group 1 of it.\<close>

fun rx_search :: "rx \<Rightarrow> char option \<Rightarrow> string \<Rightarrow> string option option" where
  "rx_search r p [] = (case rx_run r (p, [], None) of [] \<Rightarrow> None | (_, _, g) # _ \<Rightarrow> Some g)"
| "rx_search r p (c # cs) =
     (case rx_run r (p, c # cs, None) of [] \<Rightarrow> rx_search r (Some c) cs | (_, _, g) # _ \<Rightarrow> Some g)"

definition re_search :: "rx \<Rightarrow> string \<Rightarrow> string option" where
  "re_search r s = (case rx_search r None s of None \<Rightarrow> None | Some g \<Rightarrow> g)"

definition seqs :: "rx list \<Rightarrow> rx" where
  "seqs rs = foldr Seq rs (Lit [])"

definition alts :: "string list \<Rightarrow> rx" where
  "alts ws = foldr (\<lambda>w r. Alt (Lit w) r) (butlast ws) (Lit (last ws))"

text \<open>\<open>\b(\d{1,3})\s*(?:pc|piece|pieces|ct)\b\<close>\<close>

definition count_rx :: rx where
  "count_rx = seqs [WordB, Grp (Rep 1 (Some 3) is_digit), Rep 0 None is_space,
                    alts [''pc'', ''piece'', ''pieces'', ''ct''], WordB]"

text \<open>\<open>\((\d{1,3})\s*pc\)\<close>\<close>

definition count_paren_rx :: rx where
  "count_paren_rx = seqs [Lit ''('', Grp (Rep 1 (Some 3) is_digit), Rep 0 None is_space, Lit ''pc)'']"

text \<open>\<open>\b(kids|small|medium|large)\b\<close>\<close>

definition size_rx :: rx where
  "size_rx = seqs [WordB, Grp (alts [''kids'', ''small'', ''medium'', ''large'']), WordB]"

text \<open>\<open>\b(\d{1,3})\s*fl\s*oz\b\<close>\<close>

definition ounces_rx :: rx where
  "ounces_rx = seqs [WordB, Grp (Rep 1 (Some 3) is_digit), Rep 0 None is_space, Lit ''fl'',
                     Rep 0 None is_space, Lit ''oz'', WordB]"

text \<open>\<open>\b(\d{1,3})\s*(?:pc|pcs|pieces)\b\<close>\<close>

definition visible_count_rx :: rx where
  "visible_count_rx = seqs [WordB, Grp (Rep 1 (Some 3) is_digit), Rep 0 None is_space,
                            alts [''pc'', ''pcs'', ''pieces''], WordB]"

text \<open>\<open>re.findall(r"[a-z0-9]+", s)\<close>: the maximal runs of lower-case letters and digits.\<close>

function findall_alnum :: "string \<Rightarrow> string list" where
  "findall_alnum [] = []"
| "findall_alnum (c # cs) =
     (if is_lower_alnum c
      then (c # takeWhile is_lower_alnum cs) # findall_alnum (dropWhile is_lower_alnum cs)
      else findall_alnum cs)"
  by pat_completeness auto
termination
  by (relation "measure length") (auto simp: length_dropWhile_le less_Suc_eq_le)

section \<open>Normalisation\<close>

text \<open>\<open>_norm_raw\<close>: lower-case, then drop everything outside \<open>[a-z0-9]\<close>.\<close>

definition norm_raw :: "string option \<Rightarrow> string" where
  "norm_raw s = (case s of None \<Rightarrow> [] | Some t \<Rightarrow> filter is_lower_alnum (lower t))"

definition aliases :: "(string \<times> string) list" where
  "aliases =
    [(''mcdonald'', ''mcdonalds''), (''mcdonalds'', ''mcdonalds''),
     (''chickfila'', ''chickfila''), (''chickfilamenu'', ''chickfila''),
     (''chickfilachicken'', ''chickfila''),
     (''wendys'', ''wendys''), (''wendy'', ''wendys''),
     (''dominos'', ''dominos''), (''domino'', ''dominos''),
     (''papajohns'', ''papajohns''), (''papajohn'', ''papajohns''),
     (''burgerking'', ''burgerking''), (''bk'', ''burgerking''),
     (''kfc'', ''kfc''), (''kentuckyfriedchicken'', ''kfc''),
     (''arbys'', ''arbys''), (''arby'', ''arbys''),
     (''tacobell'', ''tacobell''), (''pandaexpress'', ''pandaexpress''),
     (''popeyes'', ''popeyes''), (''popeyeslouisianakitchen'', ''popeyes''),
     (''subway'', ''subway''),
     (''jackinthebox'', ''jackinthebox''), (''jackbox'', ''jackinthebox''),
     (''chipotle'', ''chipotle''), (''chipotlemexicangrill'', ''chipotle'')]"

definition norm_brand :: "string option \<Rightarrow> string" where
  "norm_brand s = (let n = norm_raw s in case map_of aliases n of None \<Rightarrow> n | Some a \<Rightarrow> a)"

definition is_generic_brand :: "string option \<Rightarrow> bool" where
  "is_generic_brand brand_name =
     (norm_raw brand_name \<in> set ['''', ''home'', ''casualdining'', ''upscalerestaurant'', ''restaurant''])"

section \<open>Catalog data\<close>

text \<open>
  A catalog entry as the catalog's JSON has it: a search hit carries the name, brand and
  identifier keys, a full record the nutrient keys as well. A key that is absent (or
  \<open>null\<close>) is \<open>None\<close>.
\<close>

record food =
  food_name :: "string option"
  food_name_input :: "string option"
  food_name_common :: "string option"
  food_name_raw :: "string option"
  brand_name :: "string option"
  nix_item_id :: "string option"
  nf_calories :: "rat option"
  nf_protein :: "rat option"
  nf_total_carbohydrate :: "rat option"
  nf_total_fat :: "rat option"
  serving_qty :: "rat option"
  serving_unit :: "string option"
  serving_weight_grams :: "rat option"

text \<open>The empty JSON object \<open>{}\<close>.\<close>

definition empty_food :: food where
  "empty_food = \<lparr>food_name = None, food_name_input = None, food_name_common = None,
     food_name_raw = None, brand_name = None, nix_item_id = None, nf_calories = None,
     nf_protein = None, nf_total_carbohydrate = None, nf_total_fat = None,
     serving_qty = None, serving_unit = None, serving_weight_grams = None\<rparr>"

text \<open>The dictionary that \<open>_extract_macro_fields\<close> builds.\<close>

record macro_fields =
  calories :: "rat option"
  protein_g :: "rat option"
  carbs_g :: "rat option"
  fat_g :: "rat option"
  m_serving_qty :: "rat option"
  m_serving_unit :: "string option"
  m_serving_weight_grams :: "rat option"
  m_brand_name :: "string option"
  m_food_name :: "string option"

definition extract_macro_fields :: "food \<Rightarrow> macro_fields" where
  "extract_macro_fields f =
     \<lparr>calories = nf_calories f, protein_g = nf_protein f, carbs_g = nf_total_carbohydrate f,
      fat_g = nf_total_fat f, m_serving_qty = serving_qty f, m_serving_unit = serving_unit f,
      m_serving_weight_grams = serving_weight_grams f, m_brand_name = brand_name f,
      m_food_name = food_name f\<rparr>"

text \<open>An item of the batch, with the keys that \<open>process_entry\<close> and the query builder read.\<close>

record entry =
  item_name :: "string option"
  description :: "string option"
  category :: "string option"
  required_keywords :: "string list option"
  forbidden_keywords :: "string list option"
  nutritionix_query :: "string option"
  quantity :: "int option"
  portion_detail :: "string option"
  size_enum :: "string option"

section \<open>Qualifier extraction\<close>

record qualifiers =
  q_count :: "string option"
  q_size :: "string option"
  q_ounces :: "string option"
  q_drink_type :: "string option"

definition coffee_words :: "string list" where
  "coffee_words = [''coffee'', ''iced coffee'', ''latte'', ''mccafe'']"

definition parse_expected_from_item ::
  "string option \<Rightarrow> string option \<Rightarrow> string option \<Rightarrow> qualifiers" where
  "parse_expected_from_item name desc cat =
     (let text = lower (or_empty name @ '' '' @ or_empty desc);
          m = (case re_search count_rx text of
                 None \<Rightarrow> re_search count_paren_rx text
               | Some g \<Rightarrow> Some g);
          m2 = re_search size_rx text;
          m3 = re_search ounces_rx text;
          dt1 = (if cat = Some ''drink'' \<or> contains ''drink'' text \<or> contains ''cola'' text
                    \<or> contains ''sprite'' text \<or> contains ''soda'' text
                 then Some ''soft_drink'' else None);
          dt2 = (if list_ex (\<lambda>w. contains w text) coffee_words then Some ''coffee'' else dt1)
      in \<lparr>q_count = m, q_size = map_option title m2, q_ounces = m3, q_drink_type = dt2\<rparr>)"

definition parse_candidate_modifiers :: "string \<Rightarrow> qualifiers" where
  "parse_candidate_modifiers fname =
     (let t = lower fname;
          m = re_search count_rx t;
          m2 = re_search size_rx t;
          m3 = re_search ounces_rx t;
          dt = (if list_ex (\<lambda>w. contains w t) coffee_words then Some ''coffee''
                else if list_ex (\<lambda>w. contains w t) [''cola'', ''coke'', ''sprite'', ''soft drink'', ''soda'']
                then Some ''soft_drink'' else None)
      in \<lparr>q_count = m, q_size = map_option title m2, q_ounces = m3, q_drink_type = dt\<rparr>)"

section \<open>Candidate scoring\<close>

text \<open>The nested helpers \<open>inc\<close> and \<open>exc\<close>: append each word that is not yet in the list.\<close>

definition add_words :: "string list \<Rightarrow> string list \<Rightarrow> string list" where
  "add_words ws acc = foldl (\<lambda>a w. if w \<in> set a then a else a @ [w]) acc ws"

definition derive_expectations ::
  "string option \<Rightarrow> string option \<Rightarrow> string list option \<Rightarrow> string list option
     \<Rightarrow> string list \<times> string list" where
  "derive_expectations iname cat required forbidden =
     (let name = lower (norm_raw iname);
          ie0 = ([], [''shake'', ''mcflurry'', ''smoothie'', ''nugget dipping'']);
          ie1 = (if cat = Some ''entree'' \<or> contains ''sandwich'' name
                 then (add_words [''sandwich'', ''mcchicken'', ''chicken sandwich'', ''crispy chicken''] (fst ie0),
                       add_words [''nugget'', ''tender'', ''wrap''] (snd ie0))
                 else ie0);
          ie2 = (if cat = Some ''entree'' \<or> contains ''burger'' name \<or> contains ''cheeseburger'' name
                 then (add_words [''burger'', ''cheeseburger'', ''big mac'', ''quarter pounder''] (fst ie1),
                       add_words [''nugget'', ''wrap''] (snd ie1))
                 else ie1);
          ie3 = (if contains ''nugget'' name
                 then (add_words [''nugget''] (fst ie2), add_words [''sandwich'', ''burger''] (snd ie2))
                 else ie2);
          ie4 = (if cat = Some ''side'' \<or> contains ''fries'' name \<or> contains ''french'' name
                 then (add_words [''fries''] (fst ie3), add_words [''hash brown'', ''onion ring''] (snd ie3))
                 else ie3);
          ie5 = (if cat = Some ''drink''
                    \<or> list_ex (\<lambda>k. contains k name) [''soda'', ''cola'', ''coke'', ''sprite'', ''drink'']
                 then (add_words [''coke'', ''cola'', ''soft drink'', ''sprite'', ''dr pepper'', ''fanta''] (fst ie4),
                       add_words [''shake'', ''smoothie'', ''coffee'', ''iced coffee'', ''latte'', ''mccafe''] (snd ie4))
                 else ie4);
          ie6 = (if list_ex (\<lambda>k. contains k name) [''sandwich'', ''burger'', ''fries'', ''nugget'']
                 then (fst ie5, add_words [''shake'', ''mcflurry'', ''sundae''] (snd ie5))
                 else ie5);
          ie7 = (if cat = Some ''sauce'' \<or> contains ''sauce'' name \<or> contains ''packet'' name
                 then (add_words [''sauce'', ''packet''] (fst ie6),
                       add_words [''dressing'', ''bottle'', ''grocery''] (snd ie6))
                 else ie6);
          inc8 = (case required of None \<Rightarrow> fst ie7 | Some ks \<Rightarrow> add_words (map lower ks) (fst ie7));
          exc8 = (case forbidden of None \<Rightarrow> snd ie7 | Some ks \<Rightarrow> add_words (map lower ks) (snd ie7))
      in (inc8, exc8))"

text \<open>
  The token-overlap term of the score:
  \<open>len(set(findall(_norm_raw(item_name))) & set(findall(_norm_raw(food))))\<close>.
\<close>

definition token_overlap :: "string option \<Rightarrow> string \<Rightarrow> int" where
  "token_overlap iname fd =
     (let tokens_item = findall_alnum (norm_raw iname);
          tokens_food = findall_alnum (norm_raw (Some fd))
      in int (length (filter (\<lambda>t. t \<in> set tokens_food) (remdups tokens_item))))"

definition qualifier_penalty :: "qualifiers \<Rightarrow> qualifiers \<Rightarrow> int" where
  "qualifier_penalty expected mods =
     (if truthy (q_count expected) \<and> truthy (q_count mods) \<and> q_count expected \<noteq> q_count mods
      then - 6 else 0)
   + (if truthy (q_size expected) \<and> truthy (q_size mods) \<and> q_size expected \<noteq> q_size mods
      then - 4 else 0)
   + (if truthy (q_ounces expected) \<and> truthy (q_ounces mods) \<and> q_ounces expected \<noteq> q_ounces mods
      then - 3 else 0)
   + (if q_drink_type expected = Some ''soft_drink'' \<and> q_drink_type mods = Some ''coffee''
      then - 12 else 0)"

definition upsize_words :: "string list" where
  "upsize_words = [''double'', ''quarter'', ''big mac'', ''double quarter'', ''quarter pounder'']"

definition burger_penalty :: "string option \<Rightarrow> string \<Rightarrow> int" where
  "burger_penalty iname fd =
     (let item_l = lower (or_empty iname) in
      (if contains ''cheeseburger'' item_l
          \<and> \<not> (contains ''double cheeseburger'' item_l \<or> contains ''mcdouble'' item_l)
          \<and> list_ex (\<lambda>k. contains k fd) upsize_words
       then - 14 else 0)
    + (if (contains ''mcdouble'' item_l \<or> contains ''double cheeseburger'' item_l)
          \<and> \<not> contains ''double'' fd \<and> \<not> contains ''mcdouble'' fd
       then - 10 else 0)
    + (if contains ''whopper'' item_l \<and> \<not> contains ''whopper'' fd then - 12 else 0))"

definition score_candidate ::
  "string option \<Rightarrow> string option \<Rightarrow> string option \<Rightarrow> string list option \<Rightarrow> string list option
     \<Rightarrow> food \<Rightarrow> int" where
  "score_candidate iname desc cat required forbidden cand =
     (let fd = lower (or_empty (food_name cand));
          exp = derive_expectations iname cat required forbidden;
          s_inc = (\<Sum>kw \<leftarrow> fst exp. if kw \<noteq> [] \<and> contains kw fd then 3 else 0);
          s_exc = (\<Sum>kw \<leftarrow> snd exp. if kw \<noteq> [] \<and> contains kw fd then - 5 else 0);
          s_tok = token_overlap iname fd;
          s_desc = (if truthy desc
                    then (\<Sum>kw \<leftarrow> fst exp.
                            if kw \<noteq> [] \<and> contains kw (lower (or_empty desc)) \<and> contains kw fd
                            then 1 else 0)
                    else 0);
          s_qual = qualifier_penalty (parse_expected_from_item iname desc cat)
                     (parse_candidate_modifiers (or_empty (food_name cand)))
      in s_inc + s_exc + s_tok + s_desc + s_qual + burger_penalty iname fd)"

section \<open>The catalog service and the resolver's state\<close>

text \<open>
  The catalog is outside the program. A call either raises (a timeout, a connection error)
  or comes back with a status code and a body; the body is \<open>None\<close> when it is not JSON.
  What the catalog answers may change from call to call, so each answer depends on the
  number of requests issued before it. \<open>perf_counter\<close> gives the successive readings
  of the clock. The credentials are taken to be configured, so that opening the session
  does not raise.
\<close>

datatype request = SearchInstant string | GetItem string | PostNatural string

datatype 'a reply = Raised | Reply nat "'a option"

record instant_data =
  branded :: "food list"
  common :: "food list"

record catalog =
  instant_reply :: "nat \<Rightarrow> string \<Rightarrow> instant_data reply"
  item_reply :: "nat \<Rightarrow> string \<Rightarrow> food list option reply"
  natural_reply :: "nat \<Rightarrow> string \<Rightarrow> food list option reply"
  perf_counter :: "nat \<Rightarrow> rat"

datatype exn = RequestException | JSONDecodeError | IndexError

text \<open>The dictionary that \<open>process_entry\<close> returns and caches.\<close>

record resolved =
  r_item_name :: "string option"
  r_description :: "string option"
  r_quantity :: int
  nutritionix_match :: "food option"
  macros :: "macro_fields option"

text \<open>
  The module's state: the cache \<open>_CACHE_MACROS\<close>, and, to speak about outbound calls,
  the requests issued so far and the number of clock readings taken.
\<close>

record state =
  cache_macros :: "string \<rightharpoonup> resolved"
  requests :: "request list"
  clock_reads :: nat

definition issue :: "request \<Rightarrow> state \<Rightarrow> state" where
  "issue r st = st\<lparr>requests := requests st @ [r]\<rparr>"

definition read_clock :: "catalog \<Rightarrow> state \<Rightarrow> rat \<times> state" where
  "read_clock cat st = (perf_counter cat (clock_reads st), st\<lparr>clock_reads := Suc (clock_reads st)\<rparr>)"

text \<open>
  \<open>resp.json().get("foods", [{}])[0]\<close>: the body may fail to parse, the key may be absent
  (then the default \<open>[{}]\<close> gives the empty object), and an empty list has no first element.
\<close>

definition first_food :: "food list option option \<Rightarrow> exn + food" where
  "first_food body =
     (case body of
        None \<Rightarrow> Inl JSONDecodeError
      | Some None \<Rightarrow> Inr empty_food
      | Some (Some []) \<Rightarrow> Inl IndexError
      | Some (Some (f # _)) \<Rightarrow> Inr f)"

section \<open>Text search\<close>

definition reject_mismatch :: "string option \<Rightarrow> string \<Rightarrow> bool" where
  "reject_mismatch item_name_text candidate_food =
     (let it = lower (or_empty item_name_text); cf = lower candidate_food in
      if contains ''cheeseburger'' it \<and> \<not> (contains ''double'' it \<or> contains ''mcdouble'' it)
         \<and> list_ex (\<lambda>k. contains k cf) upsize_words
      then True
      else if (contains ''mcdouble'' it \<or> contains ''double cheeseburger'' it)
              \<and> \<not> (contains ''double'' cf \<or> contains ''mcdouble'' cf)
      then True
      else False)"

text \<open>The nested \<open>consider\<close>, on the pair of \<open>best\<close> and \<open>best_score\<close>.\<close>

definition consider_candidate ::
  "string option \<Rightarrow> string option \<Rightarrow> string option \<Rightarrow> string list option \<Rightarrow> string list option
     \<Rightarrow> food option \<times> int \<Rightarrow> food \<Rightarrow> food option \<times> int" where
  "consider_candidate iname desc cat required forbidden acc c =
     (if reject_mismatch iname (or_empty (food_name c)) then acc
      else let sc = score_candidate iname desc cat required forbidden c
           in if sc > snd acc then (Some c, sc) else acc)"

definition GOOD_SCORE_THRESHOLD :: int where
  "GOOD_SCORE_THRESHOLD = 7"

definition brand_matches :: "string option \<Rightarrow> food \<Rightarrow> bool" where
  "brand_matches bn_norm c =
     (let bnorm = norm_brand (brand_name c) in
      truthy bn_norm \<and> bnorm \<noteq> []
      \<and> (bnorm = or_empty bn_norm \<or> contains (or_empty bn_norm) bnorm \<or> contains bnorm (or_empty bn_norm)))"

definition pick_best ::
  "string option \<Rightarrow> string option \<Rightarrow> string option \<Rightarrow> string option \<Rightarrow> string list option
     \<Rightarrow> string list option \<Rightarrow> instant_data \<Rightarrow> food option" where
  "pick_best brand iname desc cat required forbidden data =
     (let bn_norm = (if truthy brand then Some (norm_brand brand) else None);
          strict = (truthy brand \<and> \<not> is_generic_brand brand);
          start = (None, - 1000000000);
          cons = consider_candidate iname desc cat required forbidden;
          acc1 = (if strict then foldl cons start (filter (brand_matches bn_norm) (branded data))
                  else foldl cons start (branded data))
      in if strict \<and> snd acc1 \<ge> GOOD_SCORE_THRESHOLD then fst acc1
         else fst (foldl (\<lambda>a c. if strict then a else cons a c) acc1 (common data)))"

definition instant_search_best ::
  "catalog \<Rightarrow> string option \<Rightarrow> string option \<Rightarrow> string option \<Rightarrow> string option
     \<Rightarrow> string list option \<Rightarrow> string list option \<Rightarrow> string \<Rightarrow> state \<Rightarrow> food option \<times> state" where
  "instant_search_best cat brand iname desc cat_name required forbidden q st =
     (let st' = issue (SearchInstant q) st in
      case instant_reply cat (length (requests st)) q of
        Raised \<Rightarrow> (None, st')
      | Reply code body \<Rightarrow>
          if code \<noteq> 200 then (None, st')
          else (case body of
                  None \<Rightarrow> (None, st')
                | Some data \<Rightarrow> (pick_best brand iname desc cat_name required forbidden data, st')))"

section \<open>Nutrient lookup\<close>

definition brand_hint_of :: "string option \<Rightarrow> string option" where
  "brand_hint_of brand = (if is_generic_brand brand then None else brand)"

text \<open>The text sent by \<open>_natural_search_best\<close>.\<close>

definition natural_text :: "string option \<Rightarrow> string \<Rightarrow> string" where
  "natural_text brand q = strip (strip (or_empty (brand_hint_of brand)) @ '' '' @ q)"

definition natural_search_best ::
  "catalog \<Rightarrow> string option \<Rightarrow> string \<Rightarrow> state \<Rightarrow> macro_fields option \<times> state" where
  "natural_search_best cat brand q st =
     (let hint = brand_hint_of brand;
          text = natural_text brand q;
          st' = issue (PostNatural text) st
      in case natural_reply cat (length (requests st)) text of
           Raised \<Rightarrow> (None, st')
         | Reply code body \<Rightarrow>
             if code \<noteq> 200 then (None, st')
             else (case first_food body of
                     Inl e \<Rightarrow> (None, st')
                   | Inr full \<Rightarrow>
                       if truthy hint \<and> truthy (brand_name full)
                          \<and> norm_brand (brand_name full) \<noteq> norm_brand hint
                       then (None, st')
                       else (Some (extract_macro_fields full), st')))"

text \<open>The calorie check on a plain cheeseburger of the id path.\<close>

definition implausible_cheeseburger :: "food \<Rightarrow> bool" where
  "implausible_cheeseburger full =
     (let food_l = lower (or_empty (food_name full));
          brand_l = norm_brand (Some (or_empty (brand_name full)))
      in brand_l = ''mcdonalds'' \<and> contains ''cheeseburger'' food_l
         \<and> \<not> list_ex (\<lambda>k. contains k food_l) [''double'', ''quarter'', ''big mac'']
         \<and> (case nf_calories full of None \<Rightarrow> False | Some cal \<Rightarrow> cal > 450))"

fun first_truthy :: "string option list \<Rightarrow> string" where
  "first_truthy [] = []"
| "first_truthy (x # xs) = (if truthy x then or_empty x else first_truthy xs)"

text \<open>The text sent by the natural-language fallback of \<open>_nutritionix_nutrients_from_item\<close>.\<close>

definition fallback_text :: "string option \<Rightarrow> food \<Rightarrow> string" where
  "fallback_text brand_hint item =
     (let base_text = first_truthy [food_name item, food_name_input item, food_name_common item,
                                    food_name_raw item, food_name item];
          hint = brand_hint_of brand_hint
      in if truthy hint then strip (or_empty hint @ '' '' @ base_text) else base_text)"

definition nutritionix_nutrients_from_item ::
  "catalog \<Rightarrow> food \<Rightarrow> bool \<Rightarrow> string option \<Rightarrow> state \<Rightarrow> (exn + macro_fields option) \<times> state" where
  "nutritionix_nutrients_from_item cat item require_branded brand_hint st =
     (if truthy (nix_item_id item) then
        (let ident = or_empty (nix_item_id item);
             st' = issue (GetItem ident) st
         in case item_reply cat (length (requests st)) ident of
              Raised \<Rightarrow> (Inl RequestException, st')
            | Reply code body \<Rightarrow>
                if code \<noteq> 200 then (Inr None, st')
                else (case first_food body of
                        Inl e \<Rightarrow> (Inl e, st')
                      | Inr full \<Rightarrow>
                          if require_branded \<and> truthy brand_hint \<and> truthy (brand_name full)
                             \<and> norm_brand (brand_name full) \<noteq> norm_brand brand_hint
                          then (Inr None, st')
                          else if implausible_cheeseburger full then (Inr None, st')
                          else (Inr (Some (extract_macro_fields full)), st')))
      else
        (let hint = brand_hint_of brand_hint;
             text = fallback_text brand_hint item
         in if text = [] then (Inr None, st)
            else (let st' = issue (PostNatural text) st
                  in case natural_reply cat (length (requests st)) text of
                       Raised \<Rightarrow> (Inl RequestException, st')
                     | Reply code body \<Rightarrow>
                         if code \<noteq> 200 then (Inr None, st')
                         else (case first_food body of
                                 Inl e \<Rightarrow> (Inl e, st')
                               | Inr full \<Rightarrow>
                                   if truthy hint \<and> truthy (brand_name full)
                                      \<and> norm_brand (brand_name full) \<noteq> norm_brand hint
                                   then (Inr None, st')
                                   else (Inr (Some (extract_macro_fields full)), st')))))"

section \<open>Query composition\<close>

text \<open>The nested \<open>add\<close> of \<open>_generate_item_queries\<close>.\<close>

definition add_query :: "string list \<Rightarrow> string \<Rightarrow> string list" where
  "add_query candidates q =
     (let q' = strip q in if q' \<noteq> [] \<and> q' \<notin> set candidates then candidates @ [q'] else candidates)"

definition generate_item_queries :: "string option \<Rightarrow> string option \<Rightarrow> string option \<Rightarrow> string list" where
  "generate_item_queries brand iname description0 =
     (let base_name = or_empty iname;
          desc = or_empty description0;
          b = or_empty brand;
          hints = parse_expected_from_item iname description0 None;
          name_l = lower base_name;
          qs = [b @ '' '' @ base_name @ '' '' @ desc, b @ '' '' @ base_name, base_name]
             @ (if contains ''fries'' name_l \<or> contains ''french'' name_l
                then [b @ '' fries '' @ desc, b @ '' french fries'']
                     @ (if truthy (q_size hints) then [b @ '' fries '' @ or_empty (q_size hints)] else [])
                else [])
             @ (if contains ''soda'' name_l \<or> contains ''cola'' name_l \<or> contains ''coke'' name_l
                then [b @ '' coca cola '' @ desc, b @ '' coke '' @ desc, b @ '' soft drink '' @ desc]
                     @ (if truthy (q_ounces hints)
                        then [b @ '' coca cola '' @ or_empty (q_ounces hints) @ '' fl oz''] else [])
                     @ (if truthy (q_size hints)
                        then [b @ '' soft drink '' @ or_empty (q_size hints)] else [])
                else [])
             @ (if contains ''chicken'' name_l \<and> contains ''sandwich'' name_l
                then [b @ '' crispy chicken sandwich'', b @ '' chicken sandwich '' @ desc]
                else [])
             @ (if contains ''nugget'' name_l \<and> truthy (q_count hints)
                then [b @ '' chicken nuggets '' @ or_empty (q_count hints) @ '' piece'',
                      b @ '' nuggets '' @ or_empty (q_count hints) @ '' pc'']
                else [])
             @ (if list_ex (\<lambda>k. contains k name_l) [''steak'', ''sirloin'', ''ribeye'', ''filet'']
                then [b @ '' steak'', ''grilled steak '' @ desc]
                else [])
             @ (if list_ex (\<lambda>k. contains k name_l) [''shrimp'', ''prawn'']
                then [b @ '' grilled shrimp'', ''shrimp '' @ desc]
                else [])
             @ (if contains ''baked potato'' name_l
                   \<or> (contains ''potato'' name_l \<and> contains ''baked'' name_l)
                then [''baked potato'', b @ '' baked potato '' @ desc]
                else [])
             @ (if list_ex (\<lambda>k. contains k name_l) [''sauce'', ''dipping'', ''dip'']
                then [''dipping sauce'', ''sauce '' @ desc]
                else [])
      in filter (\<lambda>q. q \<noteq> []) (foldl add_query [] qs))"

definition title_size_from_enum :: "string option \<Rightarrow> string option" where
  "title_size_from_enum se =
     (if \<not> truthy se then None
      else let m = upper (strip (or_empty se)) in
           if m = ''XS'' then Some ''XS''
           else if m = ''S'' then Some ''Small''
           else if m = ''M'' then Some ''Medium''
           else if m = ''L'' then Some ''Large''
           else if m = ''XL'' then Some ''XL''
           else if m = ''UNKNOWN'' then None
           else se)"

text \<open>The nested \<open>with_brand\<close>.\<close>

definition with_brand :: "string option \<Rightarrow> string \<Rightarrow> string" where
  "with_brand brand s =
     (if truthy brand \<and> \<not> is_generic_brand brand then strip (or_empty brand @ '' '' @ s) else s)"

definition drink_words :: "string list" where
  "drink_words = [''drink'', ''cola'', ''coke'', ''sprite'', ''soda'', ''cup'']"

text \<open>
  The coffee cues of the drink rule; the fourth is the source's literal, the two code
  points U+00C3 and U+00A9 after \<open>mccaf\<close>.
\<close>

definition coffee_cues :: "string list" where
  "coffee_cues = [''coffee'', ''iced coffee'', ''latte'', ''mccaf'' @ [CHR 0xC3, CHR 0xA9], ''mccafe'']"

text \<open>The count of the nugget rule: the parsed one, else the box text, else the visible count.\<close>

definition nugget_count :: "qualifiers \<Rightarrow> string \<Rightarrow> string \<Rightarrow> string option" where
  "nugget_count expected desc portion =
     (let c0 = q_count expected;
          c1 = (if \<not> truthy c0 \<and> (contains ''pc box'' (lower portion) \<or> contains ''ct'' (lower portion))
                then (case re_search count_rx (lower portion) of None \<Rightarrow> c0 | Some g \<Rightarrow> Some g)
                else c0);
          c2 = (if \<not> truthy c1 \<and> desc \<noteq> []
                then (case re_search visible_count_rx (lower desc) of None \<Rightarrow> c1 | Some g \<Rightarrow> Some g)
                else c1)
      in c2)"

text \<open>The lower-cased text of an item and the qualifiers extracted from it.\<close>

definition item_text :: "entry \<Rightarrow> string" where
  "item_text e =
     lower (strip (or_empty (item_name e)) @ '' '' @ strip (or_empty (description e))
              @ '' '' @ strip (or_empty (portion_detail e)))"

definition item_expected :: "entry \<Rightarrow> qualifiers" where
  "item_expected e =
     parse_expected_from_item (Some (strip (or_empty (item_name e))))
       (Some (strip (or_empty (description e)) @ '' '' @ strip (or_empty (portion_detail e))))
       (category e)"

text \<open>The drink rule of the query builder, on the item's text, ounces and size word.\<close>

definition drink_query :: "string option \<Rightarrow> string \<Rightarrow> string option \<Rightarrow> string option \<Rightarrow> string" where
  "drink_query brand text ounces size_word =
     (if list_ex (\<lambda>k. contains k text) coffee_cues then
        strip (with_brand brand
                 (if truthy ounces then ''Iced Coffee '' @ or_empty ounces @ '' fl oz''
                  else ''Iced Coffee''))
      else if contains ''sprite'' text then
        with_brand brand
          (strip (if truthy ounces then ''Sprite '' @ or_empty ounces @ '' fl oz''
                  else or_empty size_word))
      else if list_ex (\<lambda>k. contains k text) [''coca-cola'', ''coke'', ''cola''] then
        with_brand brand
          (strip (if truthy ounces then ''Coca-Cola '' @ or_empty ounces @ '' fl oz''
                  else or_empty size_word))
      else
        strip (with_brand brand
                 (if truthy ounces then ''Coca-Cola '' @ or_empty ounces @ '' fl oz''
                  else if truthy size_word then or_empty size_word else ''Medium'')))"

definition build_nutritionix_query_for_item :: "string option \<Rightarrow> entry \<Rightarrow> string" where
  "build_nutritionix_query_for_item brand e =
     (let name = strip (or_empty (item_name e));
          desc = strip (or_empty (description e));
          portion = strip (or_empty (portion_detail e));
          size_word = title_size_from_enum (size_enum e);
          brand_n = norm_raw brand;
          text = item_text e;
          expected = item_expected e
      in
      if contains ''nugget'' text then
        (let count = nugget_count expected desc portion in
         if brand_n = ''mcdonalds'' then
           (if truthy count then with_brand brand (''Chicken McNuggets '' @ or_empty count @ '' Piece'')
            else with_brand brand ''Chicken McNuggets'')
         else if truthy count then with_brand brand (''chicken nuggets '' @ or_empty count @ '' piece'')
         else with_brand brand ''chicken nuggets'')
      else if contains ''fries'' text \<or> contains ''french fries'' text then
        (if brand_n = ''mcdonalds'' then
           (if truthy size_word then with_brand brand (''World Famous Fries '' @ or_empty size_word)
            else with_brand brand ''World Famous Fries'')
         else if truthy size_word then with_brand brand (''French fries '' @ or_empty size_word)
         else with_brand brand ''French fries'')
      else if list_ex (\<lambda>k. contains k text) drink_words then
        drink_query brand text (q_ounces expected) size_word
      else if list_ex (\<lambda>k. contains k text) [''barbecue'', ''bbq''] \<and> contains ''sauce'' text then
        with_brand brand ''Barbecue Sauce Packet''
      else if contains ''ranch'' text \<and> contains ''sauce'' text then
        with_brand brand ''Creamy Ranch Packet''
      else if contains ''cheeseburger'' text then with_brand brand ''Cheeseburger''
      else if contains ''mccrispy'' text then with_brand brand ''McCrispy''
      else if contains ''carrot'' text then
        (if brand_n = ''mcdonalds'' then with_brand brand ''Carrot Sticks Kids Bag''
         else with_brand brand ''Carrot sticks'')
      else with_brand brand name)"

section \<open>The resolver\<close>

definition NUTRITIONIX_MAX_SEEDS :: nat where
  "NUTRITIONIX_MAX_SEEDS = 8"

definition NUTRITIONIX_ITEM_BUDGET_S :: rat where
  "NUTRITIONIX_ITEM_BUDGET_S = 6"

text \<open>The loop over the seed queries, on \<open>best_overall\<close> and \<open>best_score_overall\<close>.\<close>

fun seed_loop ::
  "catalog \<Rightarrow> string option \<Rightarrow> string option \<Rightarrow> string option \<Rightarrow> string option
     \<Rightarrow> string list option \<Rightarrow> string list option \<Rightarrow> rat \<Rightarrow> string list
     \<Rightarrow> food option \<Rightarrow> int \<Rightarrow> state \<Rightarrow> food option \<times> state" where
  "seed_loop cat brand iname desc cat_name required forbidden start_search [] best best_score st =
     (best, st)"
| "seed_loop cat brand iname desc cat_name required forbidden start_search (q # qs) best best_score st =
     (case read_clock cat st of (now, st1) \<Rightarrow>
        if now - start_search > NUTRITIONIX_ITEM_BUDGET_S then (best, st1)
        else (case instant_search_best cat brand iname desc cat_name required forbidden q st1 of
                (None, st2) \<Rightarrow>
                  seed_loop cat brand iname desc cat_name required forbidden start_search qs
                    best best_score st2
              | (Some candidate, st2) \<Rightarrow>
                  (let sc = score_candidate iname desc cat_name required forbidden candidate;
                       best' = (if sc > best_score then Some candidate else best);
                       best_score' = (if sc > best_score then sc else best_score)
                   in if best_score' \<ge> GOOD_SCORE_THRESHOLD then (best', st2)
                      else seed_loop cat brand iname desc cat_name required forbidden start_search qs
                             best' best_score' st2)))"

definition nutritionix_search_item ::
  "catalog \<Rightarrow> string option \<Rightarrow> string option \<Rightarrow> string option \<Rightarrow> string option
     \<Rightarrow> string list option \<Rightarrow> string list option \<Rightarrow> string option \<Rightarrow> state
     \<Rightarrow> food option \<times> state" where
  "nutritionix_search_item cat brand iname desc cat_name required forbidden nq st =
     (case (if truthy nq
            then instant_search_best cat brand iname desc cat_name required forbidden (or_empty nq) st
            else (None, st)) of
        (Some best, st1) \<Rightarrow> (Some best, st1)
      | (None, st1) \<Rightarrow>
          (let seeds = generate_item_queries brand iname desc in
           case read_clock cat st1 of (start_search, st2) \<Rightarrow>
             seed_loop cat brand iname desc cat_name required forbidden start_search
               (take NUTRITIONIX_MAX_SEEDS seeds) None (- 1000000000) st2))"

definition cache_key_for_item :: "string option \<Rightarrow> string option \<Rightarrow> string option \<Rightarrow> string" where
  "cache_key_for_item brand name desc =
     norm_brand (Some (or_empty brand)) @ ''|'' @ lower (strip (or_empty name))
       @ ''|'' @ lower (strip (or_empty desc))"

text \<open>The query of a refinement attempt: the rebuilt one, else the item's own query, else its name.\<close>

definition det_query :: "string option \<Rightarrow> entry \<Rightarrow> string" where
  "det_query brand e =
     (let built = build_nutritionix_query_for_item brand e in
      if built \<noteq> [] then built
      else if truthy (nutritionix_query e) then or_empty (nutritionix_query e)
      else or_empty (item_name e))"

text \<open>
  One pass through the body of the refinement loop, entered with \<open>nutrients\<close> being
  \<open>None\<close>: the text search with the rebuilt query, the nutrient lookup for its hit, and
  the natural search when there is still no record. It gives the new \<open>match\<close> and
  \<open>nutrients\<close>; an exception of the nutrient lookup leaves the loop.
\<close>

definition refine_attempt ::
  "catalog \<Rightarrow> string option \<Rightarrow> entry \<Rightarrow> food option \<Rightarrow> state
     \<Rightarrow> (exn + food option \<times> macro_fields option) \<times> state" where
  "refine_attempt cat brand e mtch st =
     (let det_q = det_query brand e in
      case instant_search_best cat brand (Some (or_empty (item_name e))) (description e)
             (category e) (required_keywords e) (forbidden_keywords e) det_q st of
        (refined, st1) \<Rightarrow>
          (case (case refined of
                   None \<Rightarrow> (Inr (mtch, None), st1)
                 | Some r \<Rightarrow>
                     (case nutritionix_nutrients_from_item cat r (truthy brand) brand st1 of
                        (Inl ex, st2) \<Rightarrow> (Inl ex, st2)
                      | (Inr n, st2) \<Rightarrow> (Inr (Some r, n), st2))) of
             (Inl ex, st2) \<Rightarrow> (Inl ex, st2)
           | (Inr (mtch', n1), st2) \<Rightarrow>
               (case (if n1 = None then natural_search_best cat brand det_q st2 else (n1, st2)) of
                  (n2, st3) \<Rightarrow> (Inr (mtch', n2), st3))))"

text \<open>
  The refinement loop \<open>while attempts < 2 and nutrients is None\<close>, on \<open>attempts\<close>,
  \<open>match\<close> and \<open>nutrients\<close>.
\<close>

function refine_loop ::
  "catalog \<Rightarrow> string option \<Rightarrow> entry \<Rightarrow> nat \<Rightarrow> food option \<Rightarrow> macro_fields option \<Rightarrow> state
     \<Rightarrow> (exn + nat \<times> food option \<times> macro_fields option) \<times> state" where
  "refine_loop cat brand e attempts mtch nutrients st =
     (if attempts < 2 \<and> nutrients = None then
        (case refine_attempt cat brand e mtch st of
           (Inl ex, st1) \<Rightarrow> (Inl ex, st1)
         | (Inr (mtch', nutrients'), st1) \<Rightarrow>
             refine_loop cat brand e (Suc attempts) mtch' nutrients' st1)
      else (Inr (attempts, mtch, nutrients), st))"
  by pat_completeness auto
termination
  by (relation "measure (\<lambda>(cat, brand, e, attempts, mtch, nutrients, st). 2 - attempts)") auto

declare refine_loop.simps [simp del]

text \<open>
  The strict retry for a plain cheeseburger whose calories look like those of a larger one.
  The source runs it inside \<open>try ... except Exception: pass\<close>: when the nutrient lookup
  raises, \<open>match\<close> has been reassigned already and \<open>nutrients\<close> keeps its value.
\<close>

definition strict_retry ::
  "catalog \<Rightarrow> string option \<Rightarrow> entry \<Rightarrow> food option \<Rightarrow> macro_fields option \<Rightarrow> state
     \<Rightarrow> (food option \<times> macro_fields option) \<times> state" where
  "strict_retry cat brand e mtch nutrients st =
     (let nm_l = lower (or_empty (item_name e)) in
      if nutrients \<noteq> None \<and> norm_brand (Some (or_empty brand)) = ''mcdonalds''
         \<and> contains ''cheeseburger'' nm_l
         \<and> \<not> list_ex (\<lambda>x. contains x nm_l) [''double'', ''quarter'', ''big mac'']
         \<and> (case calories (the nutrients) of None \<Rightarrow> False | Some cal \<Rightarrow> cal > 450)
      then
        (let strict_q = or_empty brand @ '' Cheeseburger'' in
         case instant_search_best cat brand (Some (or_empty (item_name e))) (description e)
                (category e) (required_keywords e) (forbidden_keywords e) strict_q st of
           (None, st1) \<Rightarrow> ((mtch, nutrients), st1)
         | (Some refined2, st1) \<Rightarrow>
             (case nutritionix_nutrients_from_item cat refined2 True brand st1 of
                (Inl ex, st2) \<Rightarrow> ((Some refined2, nutrients), st2)
              | (Inr (Some n), st2) \<Rightarrow> ((Some refined2, Some n), st2)
              | (Inr None, st2) \<Rightarrow>
                  (case natural_search_best cat brand strict_q st2 of
                     (n2, st3) \<Rightarrow> ((Some refined2, n2), st3))))
      else ((mtch, nutrients), st))"

text \<open>The name of the result: a placeholder name is replaced by the catalog's name.\<close>

definition final_name :: "string option \<Rightarrow> food option \<Rightarrow> macro_fields option \<Rightarrow> string option" where
  "final_name name mtch nutrients =
     (let name_l = lower (strip (or_empty name)) in
      if name_l \<in> set [''unidentified item'', ''unidentified'', ''unknown'']
         \<or> contains ''best guess'' name_l
      then (if mtch \<noteq> None \<and> truthy (food_name (the mtch)) then food_name (the mtch)
            else if nutrients \<noteq> None \<and> truthy (m_food_name (the nutrients))
            then m_food_name (the nutrients)
            else name)
      else name)"

text \<open>
  The first lookup of \<open>process_entry\<close>: the text search, the nutrient lookup for its
  hit, and the natural search with the item's own query when that gave nothing.
\<close>

definition initial_lookup ::
  "catalog \<Rightarrow> string option \<Rightarrow> entry \<Rightarrow> state
     \<Rightarrow> (exn + food option \<times> macro_fields option) \<times> state" where
  "initial_lookup cat brand e st =
     (let nq = nutritionix_query e in
      case nutritionix_search_item cat brand (item_name e) (description e) (category e)
             (required_keywords e) (forbidden_keywords e) nq st of
        (mtch, st1) \<Rightarrow>
          (case (case mtch of
                   None \<Rightarrow> (Inr None, st1)
                 | Some m \<Rightarrow> nutritionix_nutrients_from_item cat m (truthy brand) brand st1) of
             (Inl ex, st2) \<Rightarrow> (Inl ex, st2)
           | (Inr n1, st2) \<Rightarrow>
               (case (if n1 = None \<and> truthy nq
                      then natural_search_best cat brand (or_empty nq) st2
                      else (n1, st2)) of
                  (n2, st3) \<Rightarrow> (Inr (mtch, n2), st3))))"

text \<open>
  \<open>process_entry\<close>, the resolution of one item under the batch's brand. A search hit is
  taken to be a non-empty object, so that its truth value is that of not being \<open>None\<close>.
\<close>

definition process_entry ::
  "catalog \<Rightarrow> string option \<Rightarrow> entry \<Rightarrow> state \<Rightarrow> (exn + resolved) \<times> state" where
  "process_entry cat brand e st =
     (let name = item_name e;
          desc = description e;
          qty = (case quantity e of None \<Rightarrow> 1 | Some q \<Rightarrow> if q = 0 then 1 else q);
          key = cache_key_for_item brand name desc
      in case cache_macros st key of
           Some cached \<Rightarrow> (Inr cached, st)
         | None \<Rightarrow>
             (case initial_lookup cat brand e st of
                (Inl ex, st3) \<Rightarrow> (Inl ex, st3)
              | (Inr (mtch, n2), st3) \<Rightarrow>
                  (case refine_loop cat brand e 0 mtch n2 st3 of
                     (Inl ex, st4) \<Rightarrow> (Inl ex, st4)
                   | (Inr (attempts, mtch', n3), st4) \<Rightarrow>
                       (case strict_retry cat brand e mtch' n3 st4 of
                          ((mtch'', n4), st5) \<Rightarrow>
                            (let result = \<lparr>r_item_name = final_name name mtch'' n4,
                                            r_description = desc,
                                            r_quantity = qty,
                                            nutritionix_match = mtch'',
                                            macros = n4\<rparr>
                             in (Inr result,
                                 st5\<lparr>cache_macros := (cache_macros st5)(key \<mapsto> result)\<rparr>))))))"

section \<open>The batch\<close>

record itemized =
  restaurant_name :: "string option"
  items :: "entry list"

record batch_result =
  b_restaurant_name :: "string option"
  results :: "resolved list"
  duration_ms :: int

text \<open>
  The worker tasks, run one after the other in the order of submission. The source runs
  them in a thread pool and collects the results in the order of completion.
\<close>

fun run_entries :: "catalog \<Rightarrow> string option \<Rightarrow> entry list \<Rightarrow> state \<Rightarrow> (exn + resolved) list \<times> state" where
  "run_entries cat brand [] st = ([], st)"
| "run_entries cat brand (e # es) st =
     (case process_entry cat brand e st of
        (r, st1) \<Rightarrow> (case run_entries cat brand es st1 of (rs, st2) \<Rightarrow> (r # rs, st2)))"

text \<open>\<open>fut.result()\<close> raises what the task raised: the first exception leaves the batch.\<close>

fun collect_results :: "(exn + resolved) list \<Rightarrow> exn + resolved list" where
  "collect_results [] = Inr []"
| "collect_results (Inl ex # rs) = Inl ex"
| "collect_results (Inr r # rs) = (case collect_results rs of Inl ex \<Rightarrow> Inl ex | Inr xs \<Rightarrow> Inr (r # xs))"

text \<open>\<open>int(x)\<close> on a number: truncation towards zero.\<close>

definition py_int :: "rat \<Rightarrow> int" where
  "py_int x = (if x < 0 then \<lceil>x\<rceil> else \<lfloor>x\<rfloor>)"

definition fetch_nutritionix_macros :: "catalog \<Rightarrow> itemized \<Rightarrow> state \<Rightarrow> (exn + batch_result) \<times> state" where
  "fetch_nutritionix_macros cat itemized st =
     (let brand = restaurant_name itemized in
      case read_clock cat st of (start, st0) \<Rightarrow>
        (case run_entries cat brand (items itemized) st0 of (outs, st1) \<Rightarrow>
           (case collect_results outs of
              Inl ex \<Rightarrow> (Inl ex, st1)
            | Inr rs \<Rightarrow>
                (case read_clock cat st1 of (stop, st2) \<Rightarrow>
                   (Inr \<lparr>b_restaurant_name = brand, results = rs,
                         duration_ms = py_int ((stop - start) * 1000)\<rparr>, st2)))))"

section \<open>The specification's token count, and example inputs\<close>

text \<open>
  The specification's overlap term, from its words: the number of normalised word tokens
  that the item name and the candidate name share. A word token is a maximal run of
  letters and digits of the lower-cased text.
\<close>

definition spec_shared_word_tokens :: "string \<Rightarrow> string \<Rightarrow> nat" where
  "spec_shared_word_tokens iname fname =
     length (filter (\<lambda>t. t \<in> set (findall_alnum (lower fname)))
               (remdups (findall_alnum (lower iname))))"

definition brandx_cheeseburger :: food where
  "brandx_cheeseburger =
     empty_food\<lparr>food_name := Some ''BrandX Cheeseburger'', brand_name := Some ''BrandX''\<rparr>"

definition brandx_double_cheeseburger :: food where
  "brandx_double_cheeseburger =
     empty_food\<lparr>food_name := Some ''BrandX Double Cheeseburger'', brand_name := Some ''BrandX''\<rparr>"

definition is_search :: "request \<Rightarrow> bool" where
  "is_search r = (case r of SearchInstant q \<Rightarrow> True | _ \<Rightarrow> False)"

text \<open>The requests issued between two states.\<close>

definition issued :: "state \<Rightarrow> state \<Rightarrow> request list" where
  "issued st st' = drop (length (requests st)) (requests st')"

definition empty_state :: state where
  "empty_state = \<lparr>cache_macros = Map.empty, requests = [], clock_reads = 0\<rparr>"

text \<open>A catalog whose every call raises.\<close>

definition down_catalog :: catalog where
  "down_catalog =
     \<lparr>instant_reply = (\<lambda>n q. Raised), item_reply = (\<lambda>n i. Raised),
      natural_reply = (\<lambda>n q. Raised), perf_counter = (\<lambda>n. 0)\<rparr>"

text \<open>A catalog whose records carry no brand.\<close>

definition unbranded_food :: food where
  "unbranded_food = empty_food\<lparr>food_name := Some ''cheeseburger'', nf_calories := Some 300\<rparr>"

definition unbranded_catalog :: catalog where
  "unbranded_catalog =
     \<lparr>instant_reply = (\<lambda>n q. Raised),
      item_reply = (\<lambda>n i. Reply 200 (Some (Some [unbranded_food]))),
      natural_reply = (\<lambda>n q. Reply 200 (Some (Some [unbranded_food]))),
      perf_counter = (\<lambda>n. 0)\<rparr>"

text \<open>A catalog whose records carry the brand, spelt in its own way.\<close>

definition branded_food :: food where
  "branded_food =
     empty_food\<lparr>food_name := Some ''Cheeseburger'', brand_name := Some ''Brand-X'',
                nf_calories := Some 300\<rparr>"

definition branded_catalog :: catalog where
  "branded_catalog =
     \<lparr>instant_reply = (\<lambda>n q. Raised),
      item_reply = (\<lambda>n i. Reply 200 (Some (Some [branded_food]))),
      natural_reply = (\<lambda>n q. Reply 200 (Some (Some [branded_food]))),
      perf_counter = (\<lambda>n. 0)\<rparr>"

definition hit_with_id :: food where
  "hit_with_id =
     empty_food\<lparr>food_name := Some ''Cheeseburger'', brand_name := Some ''BrandX'',
                nix_item_id := Some ''abc123''\<rparr>"

definition hit_without_id :: food where
  "hit_without_id = empty_food\<lparr>food_name := Some ''Cheeseburger''\<rparr>"

text \<open>
  A catalog whose text search answers every query with one hit of the brand, named as
  the query and identified by it, and whose fetch by id times out for the ids in \<open>bad\<close>.
\<close>

definition echo_hit :: "string \<Rightarrow> food" where
  "echo_hit q = empty_food\<lparr>food_name := Some q, brand_name := Some ''BrandX'', nix_item_id := Some q\<rparr>"

definition echo_record :: "string \<Rightarrow> food" where
  "echo_record i = empty_food\<lparr>food_name := Some i, brand_name := Some ''BrandX'', nf_calories := Some 250\<rparr>"

definition echo_catalog :: "string list \<Rightarrow> catalog" where
  "echo_catalog bad =
     \<lparr>instant_reply = (\<lambda>n q. Reply 200 (Some \<lparr>branded = [echo_hit q], common = []\<rparr>)),
      item_reply = (\<lambda>n i. if i \<in> set bad then Raised else Reply 200 (Some (Some [echo_record i]))),
      natural_reply = (\<lambda>n q. Raised),
      perf_counter = (\<lambda>n. 0)\<rparr>"

definition plain_entry :: "string \<Rightarrow> string option \<Rightarrow> entry" where
  "plain_entry n d =
     \<lparr>item_name = Some n, description = d, category = None, required_keywords = None,
      forbidden_keywords = None, nutritionix_query = None, quantity = Some 1,
      portion_detail = None, size_enum = None\<rparr>"









text \<open>
  The part of the strict retry's condition that depends on the brand and the item only:
  a plain cheeseburger of McDonald's.
\<close>

definition strict_retry_applies :: "string option \<Rightarrow> entry \<Rightarrow> bool" where
  "strict_retry_applies brand e =
     (let nm_l = lower (or_empty (item_name e)) in
      norm_brand (Some (or_empty brand)) = ''mcdonalds'' \<and> contains ''cheeseburger'' nm_l
      \<and> \<not> list_ex (\<lambda>x. contains x nm_l) [''double'', ''quarter'', ''big mac''])"

text \<open>
  A catalog that finds nothing at first, answers the free-text lookup of the second
  refinement attempt (the sixth request) with a cheeseburger of 600 kcal, and then
  answers the text search of the strict retry (the seventh request) with a hit whose
  record is that same cheeseburger.
\<close>

definition big_cheeseburger :: food where
  "big_cheeseburger =
     empty_food\<lparr>food_name := Some ''Cheeseburger'', brand_name := Some ''McDonald's'',
                nf_calories := Some 600\<rparr>"

definition mcd_hit :: food where
  "mcd_hit =
     empty_food\<lparr>food_name := Some ''Cheeseburger'', brand_name := Some ''McDonalds'',
                nix_item_id := Some ''mcd1''\<rparr>"

definition third_pass_catalog :: catalog where
  "third_pass_catalog =
     \<lparr>instant_reply = (\<lambda>n q. if n = 6 then Reply 200 (Some \<lparr>branded = [mcd_hit], common = []\<rparr>)
                              else Raised),
      item_reply = (\<lambda>n i. Reply 200 (Some (Some [big_cheeseburger]))),
      natural_reply = (\<lambda>n q. if n = 5 then Reply 200 (Some (Some [big_cheeseburger])) else Raised),
      perf_counter = (\<lambda>n. 0)\<rparr>"

text \<open>An unresolved cheeseburger, and a cache that holds it.\<close>

definition unresolved_cheeseburger :: resolved where
  "unresolved_cheeseburger =
     \<lparr>r_item_name = Some ''Cheeseburger'', r_description = None, r_quantity = 1,
      nutritionix_match = None, macros = None\<rparr>"

definition cached_state :: state where
  "cached_state =
     empty_state\<lparr>cache_macros := [''brandx|cheeseburger|'' \<mapsto> unresolved_cheeseburger]\<rparr>"

text \<open>An order of fries in a given quantity, and a batch of five items.\<close>

definition fries_order :: "int \<Rightarrow> itemized" where
  "fries_order q =
     \<lparr>restaurant_name = Some ''BrandX'', items = [(plain_entry ''Fries'' None)\<lparr>quantity := Some q\<rparr>]\<rparr>"

definition five_items :: itemized where
  "five_items =
     \<lparr>restaurant_name = Some ''BrandX'',
      items = map (\<lambda>n. plain_entry n None) [''Fries'', ''Cola'', ''Cheeseburger'', ''Nuggets'', ''Salad'']\<rparr>"

section \<open>Scoring: the cheeseburger example\<close>

lemma no_modifiers_cheeseburger:
  "parse_candidate_modifiers ''BrandX Cheeseburger'' =
     \<lparr>q_count = None, q_size = None, q_ounces = None, q_drink_type = None\<rparr>"
  by code_simp

lemma no_modifiers_double:
  "parse_candidate_modifiers ''BrandX Double Cheeseburger'' =
     \<lparr>q_count = None, q_size = None, q_ounces = None, q_drink_type = None\<rparr>"
  by code_simp

lemma qualifier_penalty_no_modifiers:
  "qualifier_penalty ex \<lparr>q_count = None, q_size = None, q_ounces = None, q_drink_type = None\<rparr> = 0"
  by (simp add: qualifier_penalty_def truthy_def)

lemma overlap_cheeseburger: "token_overlap (Some ''Cheeseburger'') ''brandx cheeseburger'' = 0"
  by code_simp

lemma overlap_double: "token_overlap (Some ''Cheeseburger'') ''brandx double cheeseburger'' = 0"
  by code_simp

lemma burger_penalty_cheeseburger: "burger_penalty (Some ''Cheeseburger'') ''brandx cheeseburger'' = 0"
  by code_simp

lemma burger_penalty_double:
  "burger_penalty (Some ''Cheeseburger'') ''brandx double cheeseburger'' = - 14"
  by code_simp

lemma lower_cheeseburger: "lower ''BrandX Cheeseburger'' = ''brandx cheeseburger''"
  by code_simp

lemma lower_double: "lower ''BrandX Double Cheeseburger'' = ''brandx double cheeseburger''"
  by code_simp

lemma name_cheeseburger: "or_empty (food_name brandx_cheeseburger) = ''BrandX Cheeseburger''"
  by (simp add: brandx_cheeseburger_def or_empty_def)

lemma name_double: "or_empty (food_name brandx_double_cheeseburger) = ''BrandX Double Cheeseburger''"
  by (simp add: brandx_double_cheeseburger_def or_empty_def)

lemmas cheeseburger_facts =
  name_cheeseburger name_double lower_cheeseburger lower_double
  no_modifiers_cheeseburger no_modifiers_double qualifier_penalty_no_modifiers
  overlap_cheeseburger overlap_double burger_penalty_cheeseburger burger_penalty_double

text \<open>The keyword lists of the item, for each category that the rules test.\<close>

lemma expectations_plain:
  "derive_expectations (Some ''Cheeseburger'') None None None =
     ([''burger'', ''cheeseburger'', ''big mac'', ''quarter pounder''],
      [''shake'', ''mcflurry'', ''smoothie'', ''nugget dipping'', ''nugget'', ''wrap'', ''sundae''])"
  by code_simp

lemma expectations_entree:
  "derive_expectations (Some ''Cheeseburger'') (Some ''entree'') None None =
     ([''sandwich'', ''mcchicken'', ''chicken sandwich'', ''crispy chicken'',
       ''burger'', ''cheeseburger'', ''big mac'', ''quarter pounder''],
      [''shake'', ''mcflurry'', ''smoothie'', ''nugget dipping'', ''nugget'', ''tender'', ''wrap'',
       ''sundae''])"
  by code_simp

lemma expectations_side:
  "derive_expectations (Some ''Cheeseburger'') (Some ''side'') None None =
     ([''burger'', ''cheeseburger'', ''big mac'', ''quarter pounder'', ''fries''],
      [''shake'', ''mcflurry'', ''smoothie'', ''nugget dipping'', ''nugget'', ''wrap'',
       ''hash brown'', ''onion ring'', ''sundae''])"
  by code_simp

lemma expectations_drink:
  "derive_expectations (Some ''Cheeseburger'') (Some ''drink'') None None =
     ([''burger'', ''cheeseburger'', ''big mac'', ''quarter pounder'', ''coke'', ''cola'',
       ''soft drink'', ''sprite'', ''dr pepper'', ''fanta''],
      [''shake'', ''mcflurry'', ''smoothie'', ''nugget dipping'', ''nugget'', ''wrap'', ''coffee'',
       ''iced coffee'', ''latte'', ''mccafe'', ''sundae''])"
  by code_simp

lemma expectations_sauce:
  "derive_expectations (Some ''Cheeseburger'') (Some ''sauce'') None None =
     ([''burger'', ''cheeseburger'', ''big mac'', ''quarter pounder'', ''sauce'', ''packet''],
      [''shake'', ''mcflurry'', ''smoothie'', ''nugget dipping'', ''nugget'', ''wrap'', ''sundae'',
       ''dressing'', ''bottle'', ''grocery''])"
  by code_simp

text \<open>A category outside the four that the rules test behaves as no category.\<close>

lemma derive_expectations_other:
  "cat \<notin> Some ` {''entree'', ''side'', ''drink'', ''sauce''} \<Longrightarrow>
     derive_expectations n cat r f = derive_expectations n None r f"
  by (simp add: derive_expectations_def image_iff)

lemma parse_expected_other:
  "cat \<noteq> Some ''drink'' \<Longrightarrow> parse_expected_from_item n d cat = parse_expected_from_item n d None"
  by (simp add: parse_expected_from_item_def)

lemma score_candidate_other:
  "cat \<notin> Some ` {''entree'', ''side'', ''drink'', ''sauce''} \<Longrightarrow>
     score_candidate n d cat r f c = score_candidate n d None r f c"
  using derive_expectations_other[of cat n r f] parse_expected_other[of cat n d]
  by (simp add: score_candidate_def)

lemma gap_plain:
  "score_candidate (Some ''Cheeseburger'') d None None None brandx_cheeseburger
     = score_candidate (Some ''Cheeseburger'') d None None None brandx_double_cheeseburger + 14"
  unfolding score_candidate_def Let_def cheeseburger_facts expectations_plain by simp

lemma gap_entree:
  "score_candidate (Some ''Cheeseburger'') d (Some ''entree'') None None brandx_cheeseburger
     = score_candidate (Some ''Cheeseburger'') d (Some ''entree'') None None brandx_double_cheeseburger + 14"
  unfolding score_candidate_def Let_def cheeseburger_facts expectations_entree by simp

lemma gap_side:
  "score_candidate (Some ''Cheeseburger'') d (Some ''side'') None None brandx_cheeseburger
     = score_candidate (Some ''Cheeseburger'') d (Some ''side'') None None brandx_double_cheeseburger + 14"
  unfolding score_candidate_def Let_def cheeseburger_facts expectations_side by simp

lemma gap_drink:
  "score_candidate (Some ''Cheeseburger'') d (Some ''drink'') None None brandx_cheeseburger
     = score_candidate (Some ''Cheeseburger'') d (Some ''drink'') None None brandx_double_cheeseburger + 14"
  unfolding score_candidate_def Let_def cheeseburger_facts expectations_drink by simp

lemma gap_sauce:
  "score_candidate (Some ''Cheeseburger'') d (Some ''sauce'') None None brandx_cheeseburger
     = score_candidate (Some ''Cheeseburger'') d (Some ''sauce'') None None brandx_double_cheeseburger + 14"
  unfolding score_candidate_def Let_def cheeseburger_facts expectations_sauce by simp

lemma score_gap:
  "score_candidate (Some ''Cheeseburger'') d cat None None brandx_cheeseburger
     = score_candidate (Some ''Cheeseburger'') d cat None None brandx_double_cheeseburger + 14"
proof (cases "cat \<in> Some ` {''entree'', ''side'', ''drink'', ''sauce''}")
  case True
  then consider "cat = Some ''entree''" | "cat = Some ''side''" | "cat = Some ''drink''"
    | "cat = Some ''sauce''"
    by auto
  then show ?thesis
    by cases (simp_all only: gap_entree gap_side gap_drink gap_sauce)
next
  case False
  then show ?thesis
    by (simp only: score_candidate_other[OF False] gap_plain)
qed

lemma plain_scores:
  "score_candidate (Some ''Cheeseburger'') None None None None brandx_cheeseburger = 6"
  "score_candidate (Some ''Cheeseburger'') None None None None brandx_double_cheeseburger = - 8"
  by code_simp+

text \<open>
  C9. For the item named "Cheeseburger" and the candidates "BrandX Cheeseburger" and
  "BrandX Double Cheeseburger" of brand BrandX, the scorer gives the first a strictly
  higher score than the second, whatever the item's description and category: the two
  scores differ by the penalty of 14 for a plain cheeseburger matched against a candidate
  that contains "double".
\<close>

theorem cheeseburger_outranks_double:
  "score_candidate (Some ''Cheeseburger'') d cat None None brandx_double_cheeseburger
     < score_candidate (Some ''Cheeseburger'') d cat None None brandx_cheeseburger"
  by (simp add: score_gap)

section \<open>Query composition: the nugget example\<close>

text \<open>
  C10. For the item "Chicken Nuggets" with description "(6 pc box)" under the brand
  BrandX, qualifier extraction gives the count "6", and the composed query is the brand
  name followed by the nugget noun and "6 piece".
\<close>

theorem nuggets_six_piece:
  "q_count (parse_expected_from_item (Some ''Chicken Nuggets'') (Some ''(6 pc box)'') None) = Some ''6''
   \<and> build_nutritionix_query_for_item (Some ''BrandX'')
        (plain_entry ''Chicken Nuggets'' (Some ''(6 pc box)'')) = ''BrandX chicken nuggets 6 piece''"
  by code_simp

section \<open>Scoring: the token overlap\<close>

text \<open>
  \<open>_norm_raw\<close> removes the spaces too, so the text that \<open>findall\<close> splits is a single
  run: the overlap term is 1 when the two normalised names are equal and not empty, and 0
  otherwise.
\<close>

lemma findall_alnum_all:
  assumes "s \<noteq> []" and "\<forall>c\<in>set s. is_lower_alnum c"
  shows "findall_alnum s = [s]"
proof (cases s)
  case Nil
  with assms show ?thesis by simp
next
  case (Cons c cs)
  with assms have run: "takeWhile is_lower_alnum cs = cs" "dropWhile is_lower_alnum cs = []"
    by simp_all
  from Cons assms have "is_lower_alnum c" by simp
  then show ?thesis unfolding Cons by (simp add: run)
qed

lemma norm_raw_alnum: "\<forall>c\<in>set (norm_raw x). is_lower_alnum c"
  by (auto simp: norm_raw_def split: option.splits)

lemma findall_norm_raw:
  "findall_alnum (norm_raw x) = (if norm_raw x = [] then [] else [norm_raw x])"
  using findall_alnum_all[OF _ norm_raw_alnum, of x] by simp

lemma token_overlap_at_most_one:
  "token_overlap n fd = (if norm_raw n \<noteq> [] \<and> norm_raw n = norm_raw (Some fd) then 1 else 0)"
  by (auto simp: token_overlap_def findall_norm_raw)

text \<open>
  C7. The overlap term of the score is not the number of shared word tokens: the item
  "Chicken Nuggets" and the candidate "Chicken Nuggets 6 Piece" share the two word tokens
  "chicken" and "nuggets", and the term is 0.
\<close>

theorem token_overlap_misses_shared_words:
  "token_overlap (Some ''Chicken Nuggets'') (lower ''Chicken Nuggets 6 Piece'') = 0
   \<and> spec_shared_word_tokens ''Chicken Nuggets'' ''Chicken Nuggets 6 Piece'' = 2"
  by code_simp



section \<open>Brand lock\<close>

lemma specific_brand_truthy: "\<not> is_generic_brand brand \<Longrightarrow> truthy brand"
  by (cases brand) (auto simp: is_generic_brand_def truthy_def norm_raw_def lower_def)

lemma brand_hint_specific: "\<not> is_generic_brand brand \<Longrightarrow> brand_hint_of brand = brand"
  by (simp add: brand_hint_of_def)

lemma norm_brand_empty: "norm_brand (Some []) = []"
  by code_simp

lemma no_brand_not_implausible: "\<not> truthy (brand_name full) \<Longrightarrow> \<not> implausible_cheeseburger full"
  by (cases "brand_name full") (simp_all add: implausible_cheeseburger_def truthy_def or_empty_def norm_brand_empty Let_def)

lemma m_brand_name_extract: "m_brand_name (extract_macro_fields f) = brand_name f"
  by (simp add: extract_macro_fields_def)

text \<open>
  C2. A fetched record whose \<open>brand_name\<close> is absent or empty is accepted without any
  brand comparison, whatever the brand asked for, on each of the three paths: the fetch by
  id, the natural-language fallback and the natural search.
\<close>

theorem record_without_brand_is_accepted:
  assumes "first_food body = Inr full" and "\<not> truthy (brand_name full)"
  shows "(truthy (nix_item_id item)
            \<and> item_reply cat (length (requests st)) (or_empty (nix_item_id item)) = Reply 200 body
          \<longrightarrow> fst (nutritionix_nutrients_from_item cat item require_branded brand st)
                = Inr (Some (extract_macro_fields full)))
       \<and> (\<not> truthy (nix_item_id item) \<and> fallback_text brand item \<noteq> []
            \<and> natural_reply cat (length (requests st)) (fallback_text brand item) = Reply 200 body
          \<longrightarrow> fst (nutritionix_nutrients_from_item cat item require_branded brand st)
                = Inr (Some (extract_macro_fields full)))
       \<and> (natural_reply cat (length (requests st)) (natural_text brand q) = Reply 200 body
          \<longrightarrow> fst (natural_search_best cat brand q st) = Some (extract_macro_fields full))"
  using assms no_brand_not_implausible[OF assms(2)]
  by (simp add: nutritionix_nutrients_from_item_def natural_search_best_def Let_def)


theorem record_without_brand_is_accepted_witness:
  "first_food (Some (Some [unbranded_food])) = Inr unbranded_food
   \<and> \<not> truthy (brand_name unbranded_food)
   \<and> fst (nutritionix_nutrients_from_item unbranded_catalog hit_with_id True (Some ''BrandX'') empty_state)
       = Inr (Some (extract_macro_fields unbranded_food))
   \<and> fst (nutritionix_nutrients_from_item unbranded_catalog hit_without_id True (Some ''BrandX'') empty_state)
       = Inr (Some (extract_macro_fields unbranded_food))
   \<and> fst (natural_search_best unbranded_catalog (Some ''BrandX'') ''Cheeseburger'' empty_state)
       = Some (extract_macro_fields unbranded_food)"
proof -
  have h1: "first_food (Some (Some [unbranded_food])) = Inr unbranded_food"
    by (simp add: first_food_def)
  have h2: "\<not> truthy (brand_name unbranded_food)"
    by (simp add: unbranded_food_def empty_food_def truthy_def)
  have h3: "truthy (nix_item_id hit_with_id)" "\<not> truthy (nix_item_id hit_without_id)"
    by (simp_all add: hit_with_id_def hit_without_id_def empty_food_def truthy_def)
  have h4: "fallback_text (Some ''BrandX'') hit_without_id \<noteq> []"
    by code_simp
  have h5: "item_reply unbranded_catalog n i = Reply 200 (Some (Some [unbranded_food]))"
           "natural_reply unbranded_catalog n q = Reply 200 (Some (Some [unbranded_food]))" for n i q
    by (simp_all add: unbranded_catalog_def)
  from record_without_brand_is_accepted[OF h1 h2, of hit_with_id unbranded_catalog empty_state True
         "Some ''BrandX''" "''Cheeseburger''"]
       record_without_brand_is_accepted[OF h1 h2, of hit_without_id unbranded_catalog empty_state True
         "Some ''BrandX''" "''Cheeseburger''"]
       h1 h2 h3 h4 h5
  show ?thesis by simp
qed

lemma id_path_brand:
  assumes "truthy brand" and rb: "require_branded"
    and "fst (nutritionix_nutrients_from_item cat item require_branded brand st) = Inr (Some r)"
    and "truthy (nix_item_id item)" and "truthy (m_brand_name r)"
  shows "norm_brand (m_brand_name r) = norm_brand brand"
  using assms
  by (auto simp: nutritionix_nutrients_from_item_def Let_def m_brand_name_extract
           split: reply.splits if_splits sum.splits)

lemma fallback_path_brand:
  assumes "\<not> is_generic_brand brand"
    and "fst (nutritionix_nutrients_from_item cat item require_branded brand st) = Inr (Some r)"
    and "\<not> truthy (nix_item_id item)" and "truthy (m_brand_name r)"
  shows "norm_brand (m_brand_name r) = norm_brand brand"
  using assms specific_brand_truthy[OF assms(1)] brand_hint_specific[OF assms(1)]
  by (auto simp: nutritionix_nutrients_from_item_def Let_def m_brand_name_extract
           split: reply.splits if_splits sum.splits)

lemma natural_path_brand:
  assumes "\<not> is_generic_brand brand"
    and "fst (natural_search_best cat brand q st) = Some r" and "truthy (m_brand_name r)"
  shows "norm_brand (m_brand_name r) = norm_brand brand"
  using assms specific_brand_truthy[OF assms(1)] brand_hint_specific[OF assms(1)]
  by (auto simp: natural_search_best_def Let_def m_brand_name_extract
           split: reply.splits if_splits sum.splits)

text \<open>
  C1, as the code has it. Under a specific (non-generic) brand, a record accepted on any of
  the three paths and carrying a non-empty \<open>brand_name\<close> has a normalised brand equal
  to the normalised brand asked for. A record without \<open>brand_name\<close> is accepted
  unchecked, so the claim does not hold for every accepted record.
\<close>

theorem brand_lock_when_record_has_brand:
  assumes "\<not> is_generic_brand brand"
  shows "(fst (nutritionix_nutrients_from_item cat item (truthy brand) brand st) = Inr (Some r)
          \<longrightarrow> truthy (m_brand_name r) \<longrightarrow> norm_brand (m_brand_name r) = norm_brand brand)
       \<and> (fst (nutritionix_nutrients_from_item cat item True brand st) = Inr (Some r)
          \<longrightarrow> truthy (m_brand_name r) \<longrightarrow> norm_brand (m_brand_name r) = norm_brand brand)
       \<and> (fst (natural_search_best cat brand q st) = Some r
          \<longrightarrow> truthy (m_brand_name r) \<longrightarrow> norm_brand (m_brand_name r) = norm_brand brand)"
proof -
  have t: "truthy brand" by (rule specific_brand_truthy[OF assms])
  have a: "fst (nutritionix_nutrients_from_item cat item True brand st) = Inr (Some r)
           \<Longrightarrow> truthy (m_brand_name r) \<Longrightarrow> norm_brand (m_brand_name r) = norm_brand brand"
    using id_path_brand[OF t, of True cat item st r] fallback_path_brand[OF assms, of cat item True st r]
    by blast
  from a t natural_path_brand[OF assms, of cat q st r] show ?thesis by simp
qed

theorem brand_lock_when_record_has_brand_witness:
  "\<not> is_generic_brand (Some ''BrandX'')
   \<and> fst (nutritionix_nutrients_from_item branded_catalog hit_with_id True (Some ''BrandX'') empty_state)
       = Inr (Some (extract_macro_fields branded_food))
   \<and> fst (natural_search_best branded_catalog (Some ''BrandX'') ''Cheeseburger'' empty_state)
       = Some (extract_macro_fields branded_food)
   \<and> truthy (m_brand_name (extract_macro_fields branded_food))
   \<and> norm_brand (m_brand_name (extract_macro_fields branded_food)) = norm_brand (Some ''BrandX'')"
proof -
  have g: "\<not> is_generic_brand (Some ''BrandX'')"
    by code_simp
  have t: "truthy (Some ''BrandX'') = True"
    by (simp add: truthy_def)
  have a: "fst (nutritionix_nutrients_from_item branded_catalog hit_with_id True (Some ''BrandX'') empty_state)
             = Inr (Some (extract_macro_fields branded_food))"
    by code_simp
  have b: "fst (natural_search_best branded_catalog (Some ''BrandX'') ''Cheeseburger'' empty_state)
             = Some (extract_macro_fields branded_food)"
    by code_simp
  have c: "truthy (m_brand_name (extract_macro_fields branded_food))"
    by (simp add: extract_macro_fields_def branded_food_def empty_food_def truthy_def)
  from brand_lock_when_record_has_brand[OF g, of branded_catalog hit_with_id empty_state
         "extract_macro_fields branded_food" "''Cheeseburger''"] g a b c t
  show ?thesis by simp
qed

text \<open>
  The claim as stated fails: under the brand BrandX each path accepts a record that
  carries no brand, and the normalised brand of that record is not \<open>brandx\<close>.
\<close>

theorem brand_lock_counterexample:
  "\<not> is_generic_brand (Some ''BrandX'')
   \<and> fst (nutritionix_nutrients_from_item unbranded_catalog hit_with_id True (Some ''BrandX'') empty_state)
       = Inr (Some (extract_macro_fields unbranded_food))
   \<and> fst (nutritionix_nutrients_from_item unbranded_catalog hit_without_id True (Some ''BrandX'') empty_state)
       = Inr (Some (extract_macro_fields unbranded_food))
   \<and> fst (natural_search_best unbranded_catalog (Some ''BrandX'') ''Cheeseburger'' empty_state)
       = Some (extract_macro_fields unbranded_food)
   \<and> norm_brand (m_brand_name (extract_macro_fields unbranded_food)) \<noteq> norm_brand (Some ''BrandX'')"
  by code_simp


section \<open>The result cache\<close>

lemma process_entry_hit:
  "cache_macros st (cache_key_for_item brand (item_name e) (description e)) = Some r
     \<Longrightarrow> process_entry cat brand e st = (Inr r, st)"
  by (simp add: process_entry_def)

lemma process_entry_stores:
  assumes "process_entry cat brand e st = (Inr r, st1)"
  shows "cache_macros st1 (cache_key_for_item brand (item_name e) (description e)) = Some r"
proof (cases "cache_macros st (cache_key_for_item brand (item_name e) (description e))")
  case (Some c)
  with assms show ?thesis by (simp add: process_entry_def)
next
  case None
  with assms show ?thesis
    by (auto simp: process_entry_def Let_def split: prod.splits sum.splits)
qed

text \<open>
  C5. When the key of an item is in the cache, resolving the item returns the cached
  value and leaves the state as it is: no request is issued and nothing is stored. So an
  item that has been resolved once resolves to the same value again, whatever the catalog
  would answer.
\<close>

theorem cached_item_returned_without_calls:
  "(cache_macros st (cache_key_for_item brand (item_name e) (description e)) = Some r
      \<longrightarrow> process_entry cat brand e st = (Inr r, st))
   \<and> (process_entry cat brand e st = (Inr r, st1)
      \<longrightarrow> process_entry cat' brand e st1 = (Inr r, st1))"
  using process_entry_hit process_entry_stores by blast

theorem cached_item_returned_without_calls_witness:
  "cache_macros cached_state
     (cache_key_for_item (Some ''BrandX'') (item_name (plain_entry ''Cheeseburger'' None))
        (description (plain_entry ''Cheeseburger'' None))) = Some unresolved_cheeseburger
   \<and> process_entry down_catalog (Some ''BrandX'') (plain_entry ''Cheeseburger'' None) cached_state
       = (Inr unresolved_cheeseburger, cached_state)
   \<and> process_entry unbranded_catalog (Some ''BrandX'') (plain_entry ''Cheeseburger'' None) cached_state
       = (Inr unresolved_cheeseburger, cached_state)"
proof -
  have k: "cache_key_for_item (Some ''BrandX'') (item_name (plain_entry ''Cheeseburger'' None))
             (description (plain_entry ''Cheeseburger'' None)) = ''brandx|cheeseburger|''"
    by code_simp
  have h: "cache_macros cached_state
             (cache_key_for_item (Some ''BrandX'') (item_name (plain_entry ''Cheeseburger'' None))
                (description (plain_entry ''Cheeseburger'' None))) = Some unresolved_cheeseburger"
    unfolding k by (simp add: cached_state_def empty_state_def)
  note t = cached_item_returned_without_calls[of cached_state "Some ''BrandX''"
             "plain_entry ''Cheeseburger'' None" unresolved_cheeseburger down_catalog cached_state
             unbranded_catalog]
  from t h have a: "process_entry down_catalog (Some ''BrandX'') (plain_entry ''Cheeseburger'' None)
                      cached_state = (Inr unresolved_cheeseburger, cached_state)"
    by blast
  from t a have b: "process_entry unbranded_catalog (Some ''BrandX'')
                      (plain_entry ''Cheeseburger'' None) cached_state
                      = (Inr unresolved_cheeseburger, cached_state)"
    by blast
  from h a b show ?thesis by blast
qed

text \<open>On a cache miss the quantity of the result is the quantity of the item.\<close>

lemma quantity_passes_on_miss:
  assumes "cache_macros st (cache_key_for_item brand (item_name e) (description e)) = None"
    and "process_entry cat brand e st = (Inr r, st')" and "quantity e = Some q" and "1 \<le> q"
  shows "r_quantity r = q"
  using assms
  by (auto simp: process_entry_def Let_def split: prod.splits sum.splits)

text \<open>
  C4. The quantity of the result is not always the quantity of the item: the cache key
  leaves the quantity out and a cache hit returns the stored result whole. After an order
  of one portion of fries has been resolved, an order of three portions under the same
  name comes back with quantity 1.
\<close>

theorem cached_quantity_is_stale:
  "map quantity (items (fries_order 3)) = [Some 3]
   \<and> (case fst (fetch_nutritionix_macros (echo_catalog []) (fries_order 3)
                  (snd (fetch_nutritionix_macros (echo_catalog []) (fries_order 1) empty_state))) of
         Inl ex \<Rightarrow> False
       | Inr b \<Rightarrow> map r_quantity (results b) = [1])"
  by code_simp

section \<open>Bounded refinement\<close>

lemma is_search_simps:
  "is_search (SearchInstant q)" "\<not> is_search (GetItem i)" "\<not> is_search (PostNatural t)"
  by (simp_all add: is_search_def)

lemma instant_requests:
  "instant_search_best cat b n d c r f q st = (x, st') \<Longrightarrow> requests st' = requests st @ [SearchInstant q]"
  by (auto simp: instant_search_best_def issue_def Let_def split: reply.splits if_splits option.splits)

lemma natural_requests:
  "natural_search_best cat b q st = (x, st') \<Longrightarrow> requests st' = requests st @ [PostNatural (natural_text b q)]"
  by (auto simp: natural_search_best_def issue_def Let_def split: reply.splits if_splits sum.splits)

lemma nutrients_requests:
  "nutritionix_nutrients_from_item cat item rb b st = (x, st') \<Longrightarrow>
     \<exists>new. requests st' = requests st @ new \<and> length new \<le> 1 \<and> filter is_search new = []"
  by (auto simp: nutritionix_nutrients_from_item_def issue_def is_search_simps Let_def
           split: reply.splits if_splits sum.splits)

lemma attempt_shape:
  assumes "refine_attempt cat brand e m st = (out, st')"
  shows "\<exists>fetch nat. requests st' = requests st @ SearchInstant (det_query brand e) # fetch @ nat
           \<and> length fetch \<le> 1 \<and> filter is_search fetch = []
           \<and> (nat = [] \<or> nat = [PostNatural (natural_text brand (det_query brand e))])
           \<and> (\<forall>m'. out = Inr (m', None) \<longrightarrow> nat = [PostNatural (natural_text brand (det_query brand e))])"
proof -
  let ?N = "PostNatural (natural_text brand (det_query brand e))"
  obtain refined st1 where s1: "instant_search_best cat brand (Some (or_empty (item_name e))) (description e)
             (category e) (required_keywords e) (forbidden_keywords e) (det_query brand e) st = (refined, st1)"
    by (cases "instant_search_best cat brand (Some (or_empty (item_name e))) (description e)
             (category e) (required_keywords e) (forbidden_keywords e) (det_query brand e) st")
  note r1 = instant_requests[OF s1]
  show ?thesis
  proof (cases refined)
    case None
    obtain n2 st3 where s3: "natural_search_best cat brand (det_query brand e) st1 = (n2, st3)"
      by (cases "natural_search_best cat brand (det_query brand e) st1")
    from assms s1 None s3 have "st' = st3" by (simp add: refine_attempt_def Let_def)
    with natural_requests[OF s3] r1
    have "requests st' = requests st @ SearchInstant (det_query brand e) # [] @ [?N]" by simp
    then show ?thesis by (intro exI[of _ "[]"] exI[of _ "[?N]"]) simp
  next
    case (Some r)
    obtain o2 st2 where s2: "nutritionix_nutrients_from_item cat r (truthy brand) brand st1 = (o2, st2)"
      by (cases "nutritionix_nutrients_from_item cat r (truthy brand) brand st1")
    from nutrients_requests[OF s2] obtain new where
      n: "requests st2 = requests st1 @ new" "length new \<le> 1" "filter is_search new = []" by blast
    show ?thesis
    proof (cases o2)
      case (Inl ex)
      with assms s1 Some s2 have "st' = st2" "out = Inl ex" by (simp_all add: refine_attempt_def Let_def)
      with n r1 have "requests st' = requests st @ SearchInstant (det_query brand e) # new @ []"
        "\<forall>m'. out \<noteq> Inr (m', None)" by simp_all
      with n show ?thesis by (intro exI[of _ new] exI[of _ "[]"]) simp
    next
      case (Inr n1)
      show ?thesis
      proof (cases n1)
        case None
        obtain n2 st3 where s3: "natural_search_best cat brand (det_query brand e) st2 = (n2, st3)"
          by (cases "natural_search_best cat brand (det_query brand e) st2")
        from assms s1 Some s2 Inr None s3 have "st' = st3" by (simp add: refine_attempt_def Let_def)
        with natural_requests[OF s3] n r1
        have "requests st' = requests st @ SearchInstant (det_query brand e) # new @ [?N]" by simp
        with n show ?thesis by (intro exI[of _ new] exI[of _ "[?N]"]) simp
      next
        case (Some x)
        with assms s1 \<open>refined = Some r\<close> s2 Inr have "st' = st2" "out = Inr (Some r, Some x)"
          by (simp_all add: refine_attempt_def Let_def)
        with n r1 have "requests st' = requests st @ SearchInstant (det_query brand e) # new @ []"
          "\<forall>m'. out \<noteq> Inr (m', None)" by simp_all
        with n show ?thesis by (intro exI[of _ new] exI[of _ "[]"]) simp
      qed
    qed
  qed
qed

lemma attempt_requests:
  assumes "refine_attempt cat brand e m st = (out, st')"
  shows "\<exists>rest. requests st' = requests st @ SearchInstant (det_query brand e) # rest
           \<and> length rest \<le> 2 \<and> filter is_search rest = []"
proof -
  from attempt_shape[OF assms] obtain fetch nat where
    s: "requests st' = requests st @ SearchInstant (det_query brand e) # fetch @ nat"
       "length fetch \<le> 1" "filter is_search fetch = []"
       "nat = [] \<or> nat = [PostNatural (natural_text brand (det_query brand e))]"
    by blast
  from s(2,3,4) have "length (fetch @ nat) \<le> 2" "filter is_search (fetch @ nat) = []"
    by (auto simp: is_search_simps)
  with s(1) show ?thesis by blast
qed

lemma refine_loop_bound:
  assumes "refine_loop cat brand e a m n st = (out, st')" and "a \<le> 2"
  shows "\<exists>new. requests st' = requests st @ new \<and> length new \<le> 3 * (2 - a)
           \<and> set (filter is_search new) \<subseteq> {SearchInstant (det_query brand e)}
           \<and> (case out of
                 Inl ex \<Rightarrow> length (filter is_search new) \<le> 2 - a
               | Inr (k, m', n') \<Rightarrow> a \<le> k \<and> k \<le> 2 \<and> length (filter is_search new) = k - a
                                    \<and> (n' = None \<longrightarrow> k = 2))"
  using assms
proof (induction cat brand e a m n st arbitrary: out st' rule: refine_loop.induct)
  case (1 cat brand e attempts mtch nutrients st)
  show ?case
  proof (cases "attempts < 2 \<and> nutrients = None")
    case False
    with "1.prems" have "out = Inr (attempts, mtch, nutrients)" "st' = st"
      by (simp_all add: refine_loop.simps)
    with False "1.prems" show ?thesis by auto
  next
    case True
    obtain o1 st1 where att: "refine_attempt cat brand e mtch st = (o1, st1)"
      by (cases "refine_attempt cat brand e mtch st")
    from attempt_requests[OF att] obtain rest where
      r: "requests st1 = requests st @ SearchInstant (det_query brand e) # rest"
         "length rest \<le> 2" "filter is_search rest = []" by blast
    show ?thesis
    proof (cases o1)
      case (Inl ex)
      with True att "1.prems" have "out = Inl ex" "st' = st1"
        by (simp_all add: refine_loop.simps)
      moreover from r(3) have "\<forall>x\<in>set rest. \<not> is_search x" by (simp add: filter_empty_conv)
      ultimately show ?thesis using r True
        by (intro exI[of _ "SearchInstant (det_query brand e) # rest"]) (auto simp: is_search_simps)
    next
      case (Inr p)
      obtain m' n' where p: "p = (m', n')" by (cases p)
      with Inr True att "1.prems" have
        rec: "refine_loop cat brand e (Suc attempts) m' n' st1 = (out, st')"
        by (simp add: refine_loop.simps)
      from True have "Suc attempts \<le> 2" by simp
      from "1.IH"[OF True att[symmetric] Inr p[symmetric] rec this] obtain new2 where
        ih: "requests st' = requests st1 @ new2" "length new2 \<le> 3 * (2 - Suc attempts)"
            "set (filter is_search new2) \<subseteq> {SearchInstant (det_query brand e)}"
            "case out of
               Inl ex \<Rightarrow> length (filter is_search new2) \<le> 2 - Suc attempts
             | Inr (k, m', n') \<Rightarrow> Suc attempts \<le> k \<and> k \<le> 2
                                  \<and> length (filter is_search new2) = k - Suc attempts
                                  \<and> (n' = None \<longrightarrow> k = 2)"
        by blast
      let ?new = "SearchInstant (det_query brand e) # rest @ new2"
      have a: "requests st' = requests st @ ?new" using r(1) ih(1) by simp
      have b: "length ?new \<le> 3 * (2 - attempts)" using r(2) ih(2) True by (cases attempts) auto
      have f: "filter is_search ?new = SearchInstant (det_query brand e) # filter is_search new2"
        using r(3) by (simp add: is_search_simps)
      have c: "set (filter is_search ?new) \<subseteq> {SearchInstant (det_query brand e)}"
        unfolding f using ih(3) by simp
      have d: "case out of
                 Inl ex \<Rightarrow> length (filter is_search ?new) \<le> 2 - attempts
               | Inr (k, m', n') \<Rightarrow> attempts \<le> k \<and> k \<le> 2
                                    \<and> length (filter is_search ?new) = k - attempts
                                    \<and> (n' = None \<longrightarrow> k = 2)"
        unfolding f using ih(4) True by (auto split: sum.splits)
      from a b c d show ?thesis by blast
    qed
  qed
qed


lemma process_entry_unresolved:
  assumes miss: "cache_macros st (cache_key_for_item brand (item_name e) (description e)) = None"
    and init: "initial_lookup cat brand e st = (Inr (m0, n0), st1)"
    and loop: "refine_loop cat brand e 0 m0 n0 st1 = (Inr (k, m1, None), st2)"
  shows "\<exists>r st3. process_entry cat brand e st = (Inr r, st3) \<and> macros r = None
           \<and> requests st3 = requests st2"
  using assms by (simp add: process_entry_def strict_retry_def Let_def)

lemma strict_retry_requests:
  assumes "strict_retry cat brand e m n st = (x, st')"
  shows "\<exists>new. requests st' = requests st @ new \<and> length new \<le> 3
           \<and> length (filter is_search new) \<le> 1
           \<and> (\<not> strict_retry_applies brand e \<or> n = None \<longrightarrow> new = [])"
proof (cases "n \<noteq> None \<and> strict_retry_applies brand e
              \<and> (case calories (the n) of None \<Rightarrow> False | Some cal \<Rightarrow> cal > 450)")
  case False
  with assms have "st' = st"
    by (auto simp: strict_retry_def strict_retry_applies_def Let_def)
  then show ?thesis by simp
next
  case True
  let ?q = "or_empty brand @ '' Cheeseburger''"
  obtain refined2 st1 where s1: "instant_search_best cat brand (Some (or_empty (item_name e)))
        (description e) (category e) (required_keywords e) (forbidden_keywords e) ?q st = (refined2, st1)"
    by (cases "instant_search_best cat brand (Some (or_empty (item_name e)))
        (description e) (category e) (required_keywords e) (forbidden_keywords e) ?q st")
  note r1 = instant_requests[OF s1]
  from True have cond: "n \<noteq> None \<and> norm_brand (Some (or_empty brand)) = ''mcdonalds''
      \<and> contains ''cheeseburger'' (lower (or_empty (item_name e)))
      \<and> \<not> list_ex (\<lambda>x. contains x (lower (or_empty (item_name e)))) [''double'', ''quarter'', ''big mac'']
      \<and> (case calories (the n) of None \<Rightarrow> False | Some cal \<Rightarrow> cal > 450)"
    by (simp add: strict_retry_applies_def Let_def)
  show ?thesis
  proof (cases refined2)
    case None
    with assms cond s1 have "st' = st1" by (simp add: strict_retry_def Let_def)
    with r1 True show ?thesis by (intro exI[of _ "[SearchInstant ?q]"]) (simp add: is_search_simps)
  next
    case (Some r)
    obtain o2 st2 where s2: "nutritionix_nutrients_from_item cat r True brand st1 = (o2, st2)"
      by (cases "nutritionix_nutrients_from_item cat r True brand st1")
    from nutrients_requests[OF s2] obtain new where
      nw: "requests st2 = requests st1 @ new" "length new \<le> 1" "filter is_search new = []" by blast
    obtain n2 st3 where s3: "natural_search_best cat brand ?q st2 = (n2, st3)"
      by (cases "natural_search_best cat brand ?q st2")
    note r3 = natural_requests[OF s3]
    from assms cond s1 Some s2 s3 have "st' = st2 \<or> st' = st3"
      by (auto simp: strict_retry_def Let_def split: sum.splits option.splits)
    then show ?thesis
    proof
      assume "st' = st2"
      with r1 nw True show ?thesis
        by (intro exI[of _ "SearchInstant ?q # new"]) (simp add: is_search_simps)
    next
      assume "st' = st3"
      with r1 nw r3 True show ?thesis
        by (intro exI[of _ "SearchInstant ?q # new @ [PostNatural (natural_text brand ?q)]"])
           (simp add: is_search_simps)
    qed
  qed
qed

lemma process_entry_after_initial:
  assumes miss: "cache_macros st (cache_key_for_item brand (item_name e) (description e)) = None"
    and init: "initial_lookup cat brand e st = (Inr (m0, n0), st1)"
    and run: "process_entry cat brand e st = (out, st')"
  shows "\<exists>new. requests st' = requests st1 @ new
           \<and> length (filter is_search new) \<le> 3 \<and> length new \<le> 9
           \<and> (\<not> strict_retry_applies brand e \<longrightarrow> length (filter is_search new) \<le> 2 \<and> length new \<le> 6)"
proof -
  obtain o2 st2 where l: "refine_loop cat brand e 0 m0 n0 st1 = (o2, st2)"
    by (cases "refine_loop cat brand e 0 m0 n0 st1")
  from refine_loop_bound[OF l] obtain new1 where
    b: "requests st2 = requests st1 @ new1" "length new1 \<le> 3 * (2 - 0)"
       "set (filter is_search new1) \<subseteq> {SearchInstant (det_query brand e)}"
       "case o2 of
          Inl ex \<Rightarrow> length (filter is_search new1) \<le> 2 - 0
        | Inr (k, m', n') \<Rightarrow> 0 \<le> k \<and> k \<le> 2 \<and> length (filter is_search new1) = k - 0
                             \<and> (n' = None \<longrightarrow> k = 2)"
    by auto
  from b(1,2) have n1: "requests st2 = requests st1 @ new1" "length new1 \<le> 6" by simp_all
  from b(4) have s1: "length (filter is_search new1) \<le> 2" by (auto split: sum.splits)
  show ?thesis
  proof (cases o2)
    case (Inl ex)
    with miss init l run have "st' = st2" by (simp add: process_entry_def Let_def)
    with n1 s1 show ?thesis by (intro exI[of _ new1]) simp
  next
    case (Inr p)
    obtain k m1 nn where p: "p = (k, m1, nn)" by (cases p)
    obtain x st3 where sr: "strict_retry cat brand e m1 nn st2 = (x, st3)"
      by (cases "strict_retry cat brand e m1 nn st2")
    from strict_retry_requests[OF sr] obtain new2 where
      n2: "requests st3 = requests st2 @ new2" "length new2 \<le> 3"
          "length (filter is_search new2) \<le> 1"
          "\<not> strict_retry_applies brand e \<or> nn = None \<longrightarrow> new2 = []"
      by blast
    from miss init l run Inr p sr have "requests st' = requests st3"
      by (auto simp: process_entry_def Let_def split: prod.splits)
    with n1 n2 s1 show ?thesis by (intro exI[of _ "new1 @ new2"]) auto
  qed
qed

text \<open>
  C6, as the code has it. The refinement loop is a total function; from zero attempts it
  makes at most two, and ends without a record only after the second. Each attempt issues
  one text search with the query rebuilt from the item's fields, then at most one nutrient
  fetch for the hit, then the free-text lookup with that query whenever there is still no
  record. When the loop ends without a record the item is reported with \<open>macros = None\<close>
  and no further request. When it ends with a record, the strict retry may follow: so,
  after the first lookup, resolving an item issues at most three text searches and nine
  requests, and at most two text searches and six requests when the item is not a plain
  cheeseburger of McDonald's.
\<close>

theorem refinement_passes_bounded:
  "(case refine_attempt cat brand e mtch st of
      (out, st') \<Rightarrow>
        (\<exists>fetch nat. requests st' = requests st @ SearchInstant (det_query brand e) # fetch @ nat
            \<and> length fetch \<le> 1 \<and> filter is_search fetch = []
            \<and> (nat = [] \<or> nat = [PostNatural (natural_text brand (det_query brand e))])
            \<and> (\<forall>m'. out = Inr (m', None)
                  \<longrightarrow> nat = [PostNatural (natural_text brand (det_query brand e))])))
   \<and> (case refine_loop cat brand e 0 mtch nutrients st of
        (out, st') \<Rightarrow>
          take (length (requests st)) (requests st') = requests st
          \<and> length (issued st st') \<le> 6
          \<and> length (filter is_search (issued st st')) \<le> 2
          \<and> (\<forall>r \<in> set (issued st st'). is_search r \<longrightarrow> r = SearchInstant (det_query brand e))
          \<and> (case out of
                Inl ex \<Rightarrow> True
              | Inr (attempts, mtch', nutrients') \<Rightarrow>
                  attempts \<le> 2 \<and> length (filter is_search (issued st st')) = attempts
                  \<and> (nutrients' = None \<longrightarrow> attempts = 2)))
   \<and> (cache_macros st (cache_key_for_item brand (item_name e) (description e)) = None
        \<and> initial_lookup cat brand e st = (Inr (m0, None), st1)
        \<and> refine_loop cat brand e 0 m0 None st1 = (Inr (k, m1, None), st2)
      \<longrightarrow> k = 2 \<and> (\<exists>r st3. process_entry cat brand e st = (Inr r, st3) \<and> macros r = None
                               \<and> requests st3 = requests st2))
   \<and> (cache_macros st (cache_key_for_item brand (item_name e) (description e)) = None
        \<and> initial_lookup cat brand e st = (Inr (m0, n0), st1)
      \<longrightarrow> (case process_entry cat brand e st of
             (out, st') \<Rightarrow>
               take (length (requests st1)) (requests st') = requests st1
               \<and> length (filter is_search (issued st1 st')) \<le> 3
               \<and> length (issued st1 st') \<le> 9
               \<and> (\<not> strict_retry_applies brand e
                    \<longrightarrow> length (filter is_search (issued st1 st')) \<le> 2
                        \<and> length (issued st1 st') \<le> 6)))"
proof -
  obtain oa sa where a: "refine_attempt cat brand e mtch st = (oa, sa)"
    by (cases "refine_attempt cat brand e mtch st")
  have zeroth: "case refine_attempt cat brand e mtch st of
      (out, st') \<Rightarrow>
        (\<exists>fetch nat. requests st' = requests st @ SearchInstant (det_query brand e) # fetch @ nat
            \<and> length fetch \<le> 1 \<and> filter is_search fetch = []
            \<and> (nat = [] \<or> nat = [PostNatural (natural_text brand (det_query brand e))])
            \<and> (\<forall>m'. out = Inr (m', None)
                  \<longrightarrow> nat = [PostNatural (natural_text brand (det_query brand e))]))"
    using attempt_shape[OF a] by (simp add: a)
  obtain out st' where l: "refine_loop cat brand e 0 mtch nutrients st = (out, st')"
    by (cases "refine_loop cat brand e 0 mtch nutrients st")
  from refine_loop_bound[OF l] obtain new where
    n: "requests st' = requests st @ new" "length new \<le> 3 * (2 - 0)"
       "set (filter is_search new) \<subseteq> {SearchInstant (det_query brand e)}"
       "case out of
          Inl ex \<Rightarrow> length (filter is_search new) \<le> 2 - 0
        | Inr (k, m', n') \<Rightarrow> 0 \<le> k \<and> k \<le> 2 \<and> length (filter is_search new) = k - 0
                             \<and> (n' = None \<longrightarrow> k = 2)"
    by auto
  have i: "issued st st' = new" using n(1) by (simp add: issued_def)
  have first: "case refine_loop cat brand e 0 mtch nutrients st of
        (out, st') \<Rightarrow>
          take (length (requests st)) (requests st') = requests st
          \<and> length (issued st st') \<le> 6
          \<and> length (filter is_search (issued st st')) \<le> 2
          \<and> (\<forall>r \<in> set (issued st st'). is_search r \<longrightarrow> r = SearchInstant (det_query brand e))
          \<and> (case out of
                Inl ex \<Rightarrow> True
              | Inr (attempts, mtch', nutrients') \<Rightarrow>
                  attempts \<le> 2 \<and> length (filter is_search (issued st st')) = attempts
                  \<and> (nutrients' = None \<longrightarrow> attempts = 2))"
    unfolding l prod.case i using n by (auto split: sum.splits)
  have second: "k = 2" if "refine_loop cat brand e 0 m0 None st1 = (Inr (k, m1, None), st2)"
    using refine_loop_bound[OF that] by auto
  have third: "case process_entry cat brand e st of
             (out, st') \<Rightarrow>
               take (length (requests st1)) (requests st') = requests st1
               \<and> length (filter is_search (issued st1 st')) \<le> 3
               \<and> length (issued st1 st') \<le> 9
               \<and> (\<not> strict_retry_applies brand e
                    \<longrightarrow> length (filter is_search (issued st1 st')) \<le> 2
                        \<and> length (issued st1 st') \<le> 6)"
    if miss: "cache_macros st (cache_key_for_item brand (item_name e) (description e)) = None"
      and init: "initial_lookup cat brand e st = (Inr (m0, n0), st1)"
  proof -
    obtain po ps where r: "process_entry cat brand e st = (po, ps)"
      by (cases "process_entry cat brand e st")
    from process_entry_after_initial[OF miss init r] obtain nw where
      "requests ps = requests st1 @ nw" "length (filter is_search nw) \<le> 3" "length nw \<le> 9"
      "\<not> strict_retry_applies brand e \<longrightarrow> length (filter is_search nw) \<le> 2 \<and> length nw \<le> 6"
      by blast
    then show ?thesis by (simp add: r issued_def)
  qed
  have p3: "cache_macros st (cache_key_for_item brand (item_name e) (description e)) = None
        \<and> initial_lookup cat brand e st = (Inr (m0, None), st1)
        \<and> refine_loop cat brand e 0 m0 None st1 = (Inr (k, m1, None), st2)
      \<longrightarrow> k = 2 \<and> (\<exists>r st3. process_entry cat brand e st = (Inr r, st3) \<and> macros r = None
                               \<and> requests st3 = requests st2)"
    using second process_entry_unresolved[of st brand e cat m0 None st1 k m1 st2] by blast
  have p4: "cache_macros st (cache_key_for_item brand (item_name e) (description e)) = None
        \<and> initial_lookup cat brand e st = (Inr (m0, n0), st1)
      \<longrightarrow> (case process_entry cat brand e st of
             (out, st') \<Rightarrow>
               take (length (requests st1)) (requests st') = requests st1
               \<and> length (filter is_search (issued st1 st')) \<le> 3
               \<and> length (issued st1 st') \<le> 9
               \<and> (\<not> strict_retry_applies brand e
                    \<longrightarrow> length (filter is_search (issued st1 st')) \<le> 2
                        \<and> length (issued st1 st') \<le> 6))"
  proof (intro impI)
    assume h: "cache_macros st (cache_key_for_item brand (item_name e) (description e)) = None
        \<and> initial_lookup cat brand e st = (Inr (m0, n0), st1)"
    show "case process_entry cat brand e st of
             (out, st') \<Rightarrow>
               take (length (requests st1)) (requests st') = requests st1
               \<and> length (filter is_search (issued st1 st')) \<le> 3
               \<and> length (issued st1 st') \<le> 9
               \<and> (\<not> strict_retry_applies brand e
                    \<longrightarrow> length (filter is_search (issued st1 st')) \<le> 2
                        \<and> length (issued st1 st') \<le> 6)"
      by (rule third[OF conjunct1[OF h] conjunct2[OF h]])
  qed
  show ?thesis by (rule conjI[OF zeroth conjI[OF first conjI[OF p3 p4]]])
qed

theorem refinement_passes_bounded_witness:
  "fst (refine_attempt down_catalog (Some ''BrandX'') (plain_entry ''Cheeseburger'' None) None empty_state)
     = Inr (None, None)
   \<and> fst (initial_lookup down_catalog (Some ''BrandX'') (plain_entry ''Cheeseburger'' None) empty_state)
       = Inr (None, None)
   \<and> fst (refine_loop down_catalog (Some ''BrandX'') (plain_entry ''Cheeseburger'' None) 0 None None
          (snd (initial_lookup down_catalog (Some ''BrandX'') (plain_entry ''Cheeseburger'' None) empty_state)))
       = Inr (2, None, None)
   \<and> \<not> strict_retry_applies (Some ''BrandX'') (plain_entry ''Cheeseburger'' None)
   \<and> (\<exists>r st3. process_entry down_catalog (Some ''BrandX'') (plain_entry ''Cheeseburger'' None) empty_state
                  = (Inr r, st3) \<and> macros r = None
                \<and> length (filter is_search
                     (issued (snd (initial_lookup down_catalog (Some ''BrandX'')
                                     (plain_entry ''Cheeseburger'' None) empty_state)) st3)) \<le> 2)"
proof -
  let ?e = "plain_entry ''Cheeseburger'' None"
  let ?st1 = "snd (initial_lookup down_catalog (Some ''BrandX'') ?e empty_state)"
  let ?st2 = "snd (refine_loop down_catalog (Some ''BrandX'') ?e 0 None None ?st1)"
  have miss: "cache_macros empty_state
                (cache_key_for_item (Some ''BrandX'') (item_name ?e) (description ?e)) = None"
    by (simp add: empty_state_def)
  have a: "fst (refine_attempt down_catalog (Some ''BrandX'') ?e None empty_state) = Inr (None, None)"
    by code_simp
  have i: "fst (initial_lookup down_catalog (Some ''BrandX'') ?e empty_state) = Inr (None, None)"
    by code_simp
  have l: "fst (refine_loop down_catalog (Some ''BrandX'') ?e 0 None None ?st1) = Inr (2, None, None)"
    by code_simp
  have na: "\<not> strict_retry_applies (Some ''BrandX'') ?e"
    by code_simp
  have i': "initial_lookup down_catalog (Some ''BrandX'') ?e empty_state = (Inr (None, None), ?st1)"
    using i by (simp add: prod_eq_iff)
  have l': "refine_loop down_catalog (Some ''BrandX'') ?e 0 None None ?st1 = (Inr (2, None, None), ?st2)"
    using l by (simp add: prod_eq_iff)
  note t = refinement_passes_bounded[where cat = down_catalog and brand = "Some ''BrandX''" and e = ?e
         and mtch = None and nutrients = None and st = empty_state and ?m0.0 = None and ?n0.0 = None
         and ?st1.0 = ?st1 and k = 2 and ?m1.0 = None and ?st2.0 = ?st2]
  from t miss i' l'
  obtain r st3 where p: "process_entry down_catalog (Some ''BrandX'') ?e empty_state = (Inr r, st3)"
      "macros r = None"
    by blast
  from t miss i' na p have "length (filter is_search (issued ?st1 st3)) \<le> 2"
    by simp
  with a i l na p show ?thesis by blast
qed

text \<open>
  The claim as stated fails: for a cheeseburger of McDonald's the first lookup finds no
  record, the second refinement attempt finds one of 600 kcal, and the strict retry then
  discards it, so the item is reported with \<open>macros = None\<close> after three text searches
  and seven requests past the first lookup.
\<close>

lemma third_pass_initial:
  "(case initial_lookup third_pass_catalog (Some ''McDonalds'') (plain_entry ''Cheeseburger'' None) empty_state of
      (out, st) \<Rightarrow> (out, requests st))
   = (Inr (None, None), [SearchInstant ''McDonalds Cheeseburger'', SearchInstant ''Cheeseburger''])"
  by code_simp

lemma third_pass_run:
  "(case process_entry third_pass_catalog (Some ''McDonalds'') (plain_entry ''Cheeseburger'' None) empty_state of
      (out, st) \<Rightarrow> (map_sum id macros out, requests st))
   = (Inr None,
      [SearchInstant ''McDonalds Cheeseburger'', SearchInstant ''Cheeseburger'',
       SearchInstant ''McDonalds Cheeseburger'', PostNatural ''McDonalds McDonalds Cheeseburger'',
       SearchInstant ''McDonalds Cheeseburger'', PostNatural ''McDonalds McDonalds Cheeseburger'',
       SearchInstant ''McDonalds Cheeseburger'', GetItem ''mcd1'',
       PostNatural ''McDonalds McDonalds Cheeseburger''])"
  by code_simp

theorem third_pass_counterexample:
  "fst (initial_lookup third_pass_catalog (Some ''McDonalds'') (plain_entry ''Cheeseburger'' None) empty_state)
     = Inr (None, None)
   \<and> map_sum id macros
        (fst (process_entry third_pass_catalog (Some ''McDonalds'') (plain_entry ''Cheeseburger'' None)
                empty_state)) = Inr None
   \<and> length (filter is_search
        (issued (snd (initial_lookup third_pass_catalog (Some ''McDonalds'')
                        (plain_entry ''Cheeseburger'' None) empty_state))
                (snd (process_entry third_pass_catalog (Some ''McDonalds'')
                        (plain_entry ''Cheeseburger'' None) empty_state)))) = 3
   \<and> length
        (issued (snd (initial_lookup third_pass_catalog (Some ''McDonalds'')
                        (plain_entry ''Cheeseburger'' None) empty_state))
                (snd (process_entry third_pass_catalog (Some ''McDonalds'')
                        (plain_entry ''Cheeseburger'' None) empty_state))) = 7"
  using third_pass_initial third_pass_run
  by (simp add: issued_def is_search_def split: prod.splits)

section \<open>The batch\<close>

text \<open>
  C3. An exception of an item's resolution is not caught at the task boundary. In a batch
  of five items whose third item finds a hit and then times out on the fetch by id, the
  exception of the fetch leaves \<open>process_entry\<close> and then the batch call: no list of
  results is returned.
\<close>

theorem batch_aborts_on_fetch_timeout:
  "length (items five_items) = 5
   \<and> fst (fetch_nutritionix_macros (echo_catalog [''Cheeseburger'']) five_items empty_state)
       = Inl RequestException"
  by code_simp

section \<open>Drink queries\<close>

subsection \<open>What the patterns capture\<close>








subsection \<open>Substrings, stripping and lower-casing\<close>











subsection \<open>The name handed to \<open>with_brand\<close>\<close>
























end
